theory Spec2Isabelle
  imports Complex_Main "HOL-Library.Word" "HOL-Library.Multiset"
begin

section \<open>EvoLisa: hill-climbing approximation of an image by polygons\<close>

text \<open>
  A shallow embedding of \<^verbatim>\<open>src/evolisa.py\<close>.

  \<^item> Python integers and numpy's default integer arrays (\<^verbatim>\<open>shapes\<close>, \<^verbatim>\<open>points\<close>) are
    \<open>int\<close>; the \<^verbatim>\<open>uint8\<close> array \<^verbatim>\<open>colors\<close> holds \<open>8 word\<close>s, and a store into it
    wraps modulo 256 as numpy's cast does.
  \<^item> numpy arrays are objects: \<^verbatim>\<open>a.copy()\<close> makes a new object and an indexed
    assignment writes into an object in place. The heap below keeps every array at an
    address, so that what an operator copies, writes and passes through is visible.
  \<^item> Every random draw (\<^verbatim>\<open>randint\<close>, \<^verbatim>\<open>np.random.choice\<close>,
    \<^verbatim>\<open>np.random.permutation\<close>) is an argument of the function that draws it; the
    predicates \<open>valid_draw\<close> and \<open>valid_init_draws\<close> say what the library can return.
  \<^item> An exception is a value \<open>Inl e\<close>.
\<close>

subsection \<open>Values, errors and the closure variables of \<^verbatim>\<open>generate\<close>\<close>

type_synonym uint8 = "8 word"

datatype py_error = IndexError | ValueError

text \<open>The variables \<^verbatim>\<open>n_shapes\<close>, \<^verbatim>\<open>min_points\<close>, \<^verbatim>\<open>max_points\<close>,
  \<^verbatim>\<open>width\<close>, \<^verbatim>\<open>height\<close> that the nested functions of \<^verbatim>\<open>generate\<close> close over.\<close>

record config =
  n_shapes :: int
  min_points :: int
  max_points :: int
  width :: int
  height :: int

subsection \<open>The heap of numpy arrays\<close>

text \<open>One store per array type; an address is a position in its store. Arrays are never
  freed, so an address stays valid.\<close>

record heap =
  int2d :: "int list list list"
  int1d :: "int list list"
  u8_2d :: "uint8 list list list"

text \<open>A polygon set is three references: \<^verbatim>\<open>(shapes, points, colors)\<close>.\<close>

record polygons =
  shapes :: nat
  points :: nat
  colors :: nat

definition valid_refs :: "heap \<Rightarrow> polygons \<Rightarrow> bool" where
  "valid_refs h r \<longleftrightarrow>
     shapes r < length (int2d h) \<and> points r < length (int1d h) \<and> colors r < length (u8_2d h)"

definition shapes_of :: "heap \<Rightarrow> polygons \<Rightarrow> int list list" where
  "shapes_of h r = int2d h ! shapes r"

definition points_of :: "heap \<Rightarrow> polygons \<Rightarrow> int list" where
  "points_of h r = int1d h ! points r"

definition colors_of :: "heap \<Rightarrow> polygons \<Rightarrow> uint8 list list" where
  "colors_of h r = u8_2d h ! colors r"

text \<open>\<^verbatim>\<open>a.copy()\<close>: a new array with the same content, at a fresh address.\<close>

definition copy_int2d :: "heap \<Rightarrow> nat \<Rightarrow> heap \<times> nat" where
  "copy_int2d h a = (h\<lparr>int2d := int2d h @ [int2d h ! a]\<rparr>, length (int2d h))"

definition copy_int1d :: "heap \<Rightarrow> nat \<Rightarrow> heap \<times> nat" where
  "copy_int1d h a = (h\<lparr>int1d := int1d h @ [int1d h ! a]\<rparr>, length (int1d h))"

definition copy_u8_2d :: "heap \<Rightarrow> nat \<Rightarrow> heap \<times> nat" where
  "copy_u8_2d h a = (h\<lparr>u8_2d := u8_2d h @ [u8_2d h ! a]\<rparr>, length (u8_2d h))"

text \<open>An assignment into the array at address \<open>a\<close>, in place.\<close>

definition store_int2d :: "heap \<Rightarrow> nat \<Rightarrow> int list list \<Rightarrow> heap" where
  "store_int2d h a arr = h\<lparr>int2d := (int2d h)[a := arr]\<rparr>"

definition store_int1d :: "heap \<Rightarrow> nat \<Rightarrow> int list \<Rightarrow> heap" where
  "store_int1d h a arr = h\<lparr>int1d := (int1d h)[a := arr]\<rparr>"

definition store_u8_2d :: "heap \<Rightarrow> nat \<Rightarrow> uint8 list list \<Rightarrow> heap" where
  "store_u8_2d h a arr = h\<lparr>u8_2d := (u8_2d h)[a := arr]\<rparr>"

subsection \<open>numpy helpers\<close>

text \<open>\<^verbatim>\<open>np.clip(a, lo, hi)\<close> is \<^verbatim>\<open>minimum(maximum(a, lo), hi)\<close>.\<close>

definition np_clip :: "int \<Rightarrow> int \<Rightarrow> int \<Rightarrow> int" where
  "np_clip a lo hi = min (max a lo) hi"

text \<open>Storing an integer into a \<^verbatim>\<open>uint8\<close> array keeps its low eight bits.\<close>

definition to_uint8 :: "int \<Rightarrow> uint8" where
  "to_uint8 v = word_of_int v"

text \<open>\<^verbatim>\<open>np.tile(xs, n)\<close> on a one-dimensional array.\<close>

definition tile :: "'a list \<Rightarrow> nat \<Rightarrow> 'a list" where
  "tile xs n = concat (replicate n xs)"

text \<open>The strided slice \<^verbatim>\<open>row[start:stop:2]\<close> for \<open>0 \<le> start\<close>, \<open>0 \<le> stop\<close>: its length,
  reading it, and assigning a sequence of that length to it. A stop beyond the row is cut
  to the row's length, as Python does.\<close>

definition slice2_len :: "nat \<Rightarrow> nat \<Rightarrow> nat \<Rightarrow> nat" where
  "slice2_len start stop n = (min stop n - start + 1) div 2"

definition get_slice2 :: "nat \<Rightarrow> nat \<Rightarrow> 'a list \<Rightarrow> 'a list" where
  "get_slice2 start stop row =
     map (\<lambda>j. row ! (start + 2 * j)) [0..<slice2_len start stop (length row)]"

definition set_slice2 :: "nat \<Rightarrow> nat \<Rightarrow> 'a list \<Rightarrow> 'a list \<Rightarrow> 'a list" where
  "set_slice2 start stop row vs =
     map (\<lambda>k. if start \<le> k \<and> k < stop \<and> even (k - start) then vs ! ((k - start) div 2)
              else row ! k) [0..<length row]"

text \<open>The stop \<open>n\<close> of a slice of a row of \<open>len\<close> entries: a negative \<open>n\<close> counts from the
  end, and not below 0.\<close>

definition py_stop :: "int \<Rightarrow> nat \<Rightarrow> nat" where
  "py_stop n len = (if 0 \<le> n then nat n else len - nat (- n))"

text \<open>The assignment \<^verbatim>\<open>row[start:stop:2] = vs\<close> as numpy checks it: \<open>vs\<close> has as many
  entries as the slice, or one entry that is broadcast to the slice; anything else
  raises.\<close>

definition assign_slice2 :: "nat \<Rightarrow> nat \<Rightarrow> 'a list \<Rightarrow> 'a list \<Rightarrow> py_error + 'a list" where
  "assign_slice2 start stop row vs =
     (let n = slice2_len start stop (length row)
      in if length vs = n then Inr (set_slice2 start stop row vs)
         else if length vs = 1 then Inr (set_slice2 start stop row (replicate n (vs ! 0)))
         else Inl ValueError)"

text \<open>\<^verbatim>\<open>row[:n]\<close>: a negative \<open>n\<close> counts from the end.\<close>

definition py_take :: "int \<Rightarrow> 'a list \<Rightarrow> 'a list" where
  "py_take n row = (if 0 \<le> n then take (nat n) row else take (length row - nat (- n)) row)"

subsection \<open>The mutation operators\<close>

text \<open>The random draws of one call of \<^verbatim>\<open>changes\<close>, by the operator that
  \<^verbatim>\<open>np.random.choice\<close> selected:
  \<^item> \<open>Point change choice\<close>: \<^verbatim>\<open>randint(-point_rng, point_rng+1, size=2)\<close> and
    \<^verbatim>\<open>np.random.choice(max_points)\<close>;
  \<^item> \<open>Shape change\<close>: \<^verbatim>\<open>randint(-shape_rng, shape_rng+1, size=2)\<close>;
  \<^item> \<open>Order shuffle\<close>: \<^verbatim>\<open>np.random.permutation(points[index])\<close>;
  \<^item> \<open>Number step\<close>: \<^verbatim>\<open>np.random.choice([1, -1])\<close> (read only in the last branch);
  \<^item> \<open>Color change\<close>: \<^verbatim>\<open>randint(-color_rng, color_rng+1, size=3)\<close>;
  \<^item> \<open>Alpha change\<close>: \<^verbatim>\<open>randint(-alpha_rng, alpha_rng+1)\<close>.\<close>

datatype draw =
    Point "int \<times> int" nat
  | Shape "int \<times> int"
  | Order "nat list"
  | Number int
  | Color "int \<times> int \<times> int"
  | Alpha int

text \<open>\<^verbatim>\<open>point\<close> (lines 67-73). The slice \<^verbatim>\<open>shapes[index, point:point+2]\<close> lies in the
  row when the row has \<open>2 * max_points\<close> entries; a shorter slice cannot take the two
  clipped values.\<close>

definition point ::
  "config \<Rightarrow> heap \<Rightarrow> polygons \<Rightarrow> nat \<Rightarrow> int \<times> int \<Rightarrow> nat \<Rightarrow> py_error + heap \<times> polygons" where
  "point cfg h r index change choice =
     (let (h1, s) = copy_int2d h (shapes r);
          arr = int2d h1 ! s;
          pt = choice * 2
      in if index < length arr then
           (let row = arr ! index in
            if pt + 2 \<le> length row then
              Inr (store_int2d h1 s
                     (arr[index := row[pt := np_clip (row ! pt + fst change) 0 (width cfg),
                                       pt + 1 := np_clip (row ! (pt + 1) + snd change) 0 (height cfg)]]),
                   r\<lparr>shapes := s\<rparr>)
            else Inl ValueError)
         else Inl IndexError)"

text \<open>\<^verbatim>\<open>shape\<close> (lines 75-81); \<^verbatim>\<open>boundaries\<close> is
  \<^verbatim>\<open>np.tile([width, height], max_points)\<close> (line 139).\<close>

definition shape ::
  "config \<Rightarrow> heap \<Rightarrow> polygons \<Rightarrow> nat \<Rightarrow> int \<times> int \<Rightarrow> py_error + heap \<times> polygons" where
  "shape cfg h r index change =
     (let (h1, s) = copy_int2d h (shapes r);
          arr = int2d h1 ! s;
          chg = tile [fst change, snd change] (nat (max_points cfg));
          boundaries = tile [width cfg, height cfg] (nat (max_points cfg))
      in if index < length arr then
           (if length (arr ! index) = length chg then
              Inr (store_int2d h1 s
                     (arr[index := map2 (\<lambda>(v, c) b. np_clip (v + c) 0 b)
                                        (zip (arr ! index) chg) boundaries]),
                   r\<lparr>shapes := s\<rparr>)
            else Inl ValueError)
         else Inl IndexError)"

text \<open>\<^verbatim>\<open>order\<close> (lines 83-89). The stop \<^verbatim>\<open>points[index] * 2\<close> of the two slices may be
  negative or beyond the row; indexing a slice with \<^verbatim>\<open>shuffle\<close> raises when an index is
  beyond the slice; each assignment is checked as above. \<^verbatim>\<open>np.random.permutation\<close> of a
  negative number is the empty permutation.\<close>

definition order ::
  "config \<Rightarrow> heap \<Rightarrow> polygons \<Rightarrow> nat \<Rightarrow> nat list \<Rightarrow> py_error + heap \<times> polygons" where
  "order cfg h r index shuffle =
     (let (h1, s) = copy_int2d h (shapes r);
          arr = int2d h1 ! s;
          pts = int1d h1 ! points r
      in if index < length pts \<and> index < length arr then
           (let row = arr ! index;
                stop = py_stop (pts ! index * 2) (length row);
                xs = get_slice2 0 stop row
            in if \<not> list_all (\<lambda>i. i < length xs) shuffle then Inl IndexError
               else
                 (case assign_slice2 0 stop row (map (\<lambda>i. xs ! i) shuffle) of
                    Inl e \<Rightarrow> Inl e
                  | Inr row1 \<Rightarrow>
                      (let ys = get_slice2 1 stop row1
                       in if \<not> list_all (\<lambda>i. i < length ys) shuffle then Inl IndexError
                          else
                            (case assign_slice2 1 stop row1 (map (\<lambda>i. ys ! i) shuffle) of
                               Inl e \<Rightarrow> Inl e
                             | Inr row2 \<Rightarrow>
                                 Inr (store_int2d h1 s (arr[index := row2]), r\<lparr>shapes := s\<rparr>)))))
         else Inl IndexError)"

text \<open>\<^verbatim>\<open>number\<close> (lines 91-100).\<close>

definition number ::
  "config \<Rightarrow> heap \<Rightarrow> polygons \<Rightarrow> nat \<Rightarrow> int \<Rightarrow> py_error + heap \<times> polygons" where
  "number cfg h r index step =
     (let (h1, p) = copy_int1d h (points r);
          pts = int1d h1 ! p
      in if index < length pts then
           Inr (store_int1d h1 p
                  (pts[index :=
                     (if pts ! index = min_points cfg then pts ! index + 1
                      else if pts ! index = max_points cfg then pts ! index - 1
                      else pts ! index + step)]),
                r\<lparr>points := p\<rparr>)
         else Inl IndexError)"

text \<open>\<^verbatim>\<open>color\<close> (lines 102-108). The sum of a \<^verbatim>\<open>uint8\<close> array and the integer array
  \<^verbatim>\<open>change\<close> is an integer array, so the sum itself is exact; it is clipped to
  \<open>[0, 256]\<close> and stored back into the \<^verbatim>\<open>uint8\<close> array.\<close>

definition color ::
  "config \<Rightarrow> heap \<Rightarrow> polygons \<Rightarrow> nat \<Rightarrow> int \<times> int \<times> int \<Rightarrow> py_error + heap \<times> polygons" where
  "color cfg h r index change =
     (let (h1, c) = copy_u8_2d h (colors r);
          arr = u8_2d h1 ! c
      in if index < length arr then
           (let row = arr ! index in
            if 3 \<le> length row then
              Inr (store_u8_2d h1 c
                     (arr[index := row[0 := to_uint8 (np_clip (uint (row ! 0) + fst change) 0 256),
                                       1 := to_uint8 (np_clip (uint (row ! 1) + fst (snd change)) 0 256),
                                       2 := to_uint8 (np_clip (uint (row ! 2) + snd (snd change)) 0 256)]]),
                   r\<lparr>colors := c\<rparr>)
            else Inl ValueError)
         else Inl IndexError)"

text \<open>\<^verbatim>\<open>alpha\<close> (lines 110-116). \<^verbatim>\<open>colors[index][3] + change\<close> adds a Python integer
  to a \<^verbatim>\<open>uint8\<close> scalar; under the value-based promotion of the numpy releases the
  program was written for, the sum is a 64-bit integer and exact.\<close>

definition alpha ::
  "config \<Rightarrow> heap \<Rightarrow> polygons \<Rightarrow> nat \<Rightarrow> int \<Rightarrow> py_error + heap \<times> polygons" where
  "alpha cfg h r index change =
     (let (h1, c) = copy_u8_2d h (colors r);
          arr = u8_2d h1 ! c
      in if index < length arr then
           (let row = arr ! index in
            if 3 < length row then
              Inr (store_u8_2d h1 c
                     (arr[index := row[3 := to_uint8 (np_clip (uint (row ! 3) + change) 0 256)]]),
                   r\<lparr>colors := c\<rparr>)
            else Inl IndexError)
         else Inl IndexError)"

text \<open>\<^verbatim>\<open>changes\<close> (lines 58-119): \<open>index\<close> is \<^verbatim>\<open>randint(n_shapes)\<close>, the draw names
  the operator that was chosen.\<close>

definition changes ::
  "config \<Rightarrow> heap \<Rightarrow> polygons \<Rightarrow> nat \<Rightarrow> draw \<Rightarrow> py_error + heap \<times> polygons" where
  "changes cfg h r index d =
     (case d of
        Point change choice \<Rightarrow> point cfg h r index change choice
      | Shape change \<Rightarrow> shape cfg h r index change
      | Order shuffle \<Rightarrow> order cfg h r index shuffle
      | Number step \<Rightarrow> number cfg h r index step
      | Color change \<Rightarrow> color cfg h r index change
      | Alpha change \<Rightarrow> alpha cfg h r index change)"

text \<open>What the library can return for the draws of one call of \<^verbatim>\<open>changes\<close>.
  \<^verbatim>\<open>point_rng\<close> and \<^verbatim>\<open>shape_rng\<close> are the float \<open>R = max(width, height) / 2\<close>;
  \<^verbatim>\<open>randint(-R, R+1)\<close> cuts both bounds towards zero, so it returns the integers \<open>c\<close>
  with \<open>2 * \<bar>c\<bar> \<le> max(width, height)\<close>, that is the integers of \<open>[-R, R]\<close>.\<close>

definition valid_offset :: "config \<Rightarrow> int \<Rightarrow> bool" where
  "valid_offset cfg c \<longleftrightarrow> 2 * \<bar>c\<bar> \<le> max (width cfg) (height cfg)"

definition valid_draw :: "config \<Rightarrow> heap \<Rightarrow> polygons \<Rightarrow> nat \<Rightarrow> draw \<Rightarrow> bool" where
  "valid_draw cfg h r index d \<longleftrightarrow>
     int index < n_shapes cfg \<and>
     (case d of
        Point change choice \<Rightarrow>
          valid_offset cfg (fst change) \<and> valid_offset cfg (snd change) \<and> int choice < max_points cfg
      | Shape change \<Rightarrow> valid_offset cfg (fst change) \<and> valid_offset cfg (snd change)
      | Order shuffle \<Rightarrow> mset shuffle = mset [0..<nat (points_of h r ! index)]
      | Number step \<Rightarrow> step = 1 \<or> step = - 1
      | Color change \<Rightarrow>
          \<bar>fst change\<bar> \<le> 100 \<and> \<bar>fst (snd change)\<bar> \<le> 100 \<and> \<bar>snd (snd change)\<bar> \<le> 100
      | Alpha change \<Rightarrow> \<bar>change\<bar> \<le> 100)"

subsection \<open>Initialisation\<close>

text \<open>\<^verbatim>\<open>np.empty((d0, d1))\<close> of 8-byte integers is refused when the byte count of its
  non-zero dimensions reaches \<open>2^63\<close>. (Whether the machine has the memory for a smaller
  array is not part of the model.)\<close>

definition too_big :: "int \<Rightarrow> int \<Rightarrow> bool" where
  "too_big d0 d1 \<longleftrightarrow> 2 ^ 63 \<le> 8 * (if d0 = 0 then 1 else d0) * (if d1 = 0 then 1 else d1)"

text \<open>\<^verbatim>\<open>initialize\<close> (lines 23-33). \<open>xs\<close>, \<open>ys\<close> and \<open>cs\<close> are the three arrays that
  \<^verbatim>\<open>randint\<close> returns. \<^verbatim>\<open>np.empty\<close> refuses a negative dimension and an array that is too
  big. \<^verbatim>\<open>randint(0, high, size)\<close> returns an empty draw as it is; for a draw with entries it
  refuses an empty range (\<open>high \<le> 0\<close>) and a bound outside the 64-bit integers
  (\<open>high > 2^63\<close>); every refusal is the error \<open>ValueError\<close> here, whatever exception the
  library chooses. The content of the array \<^verbatim>\<open>np.empty\<close> returns is arbitrary (here 0): the
  two strided assignments overwrite every entry of it.\<close>

definition initialize ::
  "int \<Rightarrow> int \<Rightarrow> int \<Rightarrow> int \<Rightarrow> int \<Rightarrow> heap \<Rightarrow> int list list \<Rightarrow> int list list \<Rightarrow> uint8 list list
     \<Rightarrow> py_error + heap \<times> polygons" where
  "initialize n mn mx w hg h xs ys cs =
     (if n < 0 \<or> mx < 0 \<or> too_big n (mx * 2) then Inl ValueError
      else if n * mx \<noteq> 0 \<and> (w \<le> 0 \<or> 2 ^ 63 < w) then Inl ValueError
      else if n * mx \<noteq> 0 \<and> (hg \<le> 0 \<or> 2 ^ 63 < hg) then Inl ValueError
      else
        (let empty = replicate (nat n) (replicate (nat (mx * 2)) 0);
             shapes1 = map2 (\<lambda>row x. set_slice2 0 (length row) row x) empty xs;
             shapes2 = map2 (\<lambda>row y. set_slice2 1 (length row) row y) shapes1 ys;
             pts = replicate (nat n) mn
         in Inr (h\<lparr>int2d := int2d h @ [shapes2], int1d := int1d h @ [pts],
                    u8_2d := u8_2d h @ [cs]\<rparr>,
                 \<lparr>shapes = length (int2d h), points = length (int1d h),
                  colors = length (u8_2d h)\<rparr>)))"

text \<open>What \<^verbatim>\<open>randint\<close> can return for the three draws of \<^verbatim>\<open>initialize\<close>:
  \<open>n \<times> mx\<close> integers of \<open>[0, w)\<close>, \<open>n \<times> mx\<close> integers of \<open>[0, hg)\<close> and \<open>n \<times> 4\<close>
  bytes.\<close>

definition valid_init_draws ::
  "int \<Rightarrow> int \<Rightarrow> int \<Rightarrow> int \<Rightarrow> int list list \<Rightarrow> int list list \<Rightarrow> uint8 list list \<Rightarrow> bool" where
  "valid_init_draws n mx w hg xs ys cs \<longleftrightarrow>
     length xs = nat n \<and> list_all (\<lambda>row. length row = nat mx \<and> list_all (\<lambda>x. 0 \<le> x \<and> x < w) row) xs \<and>
     length ys = nat n \<and> list_all (\<lambda>row. length row = nat mx \<and> list_all (\<lambda>y. 0 \<le> y \<and> y < hg) row) ys \<and>
     length cs = nat n \<and> list_all (\<lambda>row. length row = 4) cs"

text \<open>The heap before the program has made an array.\<close>

definition empty_heap :: heap where
  "empty_heap = \<lparr>int2d = [], int1d = [], u8_2d = []\<rparr>"

subsection \<open>Rasters, the rasterizer and the scorer\<close>

text \<open>A raster is what \<^verbatim>\<open>np.array(image)\<close> gives for an RGB image: an array of shape
  \<open>(height, width, 3)\<close> of \<^verbatim>\<open>uint8\<close>, kept as its two leading dimensions and its pixels in
  row-major order.\<close>

type_synonym rgb = "uint8 \<times> uint8 \<times> uint8"

record raster =
  shape0 :: nat
  shape1 :: nat
  pixels :: "rgb list"

definition wf_raster :: "raster \<Rightarrow> bool" where
  "wf_raster a \<longleftrightarrow> length (pixels a) = shape0 a * shape1 a"

text \<open>The two calls into the imaging library that \<^verbatim>\<open>draw_image\<close> makes are parameters:
  \<open>polygon xy fill img\<close> is \<^verbatim>\<open>drawer.polygon(xy, fill)\<close> on a drawer of mode RGBA over
  \<open>img\<close>, and \<open>thumbnail size img\<close> is \<^verbatim>\<open>image.thumbnail(size)\<close>.\<close>

record pil =
  polygon :: "int list \<Rightarrow> uint8 list \<Rightarrow> raster \<Rightarrow> raster"
  thumbnail :: "int \<times> int \<Rightarrow> raster \<Rightarrow> raster"

text \<open>\<^verbatim>\<open>plImage.new('RGB', (w, h), (255, 255, 255, 0))\<close>: an opaque white canvas.\<close>

definition new_image :: "int \<Rightarrow> int \<Rightarrow> raster" where
  "new_image w hg =
     \<lparr>shape0 = nat hg, shape1 = nat w, pixels = replicate (nat hg * nat w) (255, 255, 255)\<rparr>"

text \<open>\<^verbatim>\<open>draw_image\<close> (lines 35-45).\<close>

definition draw_image ::
  "pil \<Rightarrow> int \<Rightarrow> int \<Rightarrow> int list list \<Rightarrow> int list \<Rightarrow> uint8 list list \<Rightarrow> bool \<Rightarrow> raster" where
  "draw_image lib w hg shps pts cols antialiasing =
     (let scale = (if antialiasing then 4 else 1);
          img = foldl (\<lambda>img (shp, pt, col).
                         polygon lib (map (\<lambda>v. v * scale) (py_take (pt * 2) shp)) col img)
                  (new_image (w * scale) (hg * scale)) (zip shps (zip pts cols))
      in if antialiasing then thumbnail lib (w, hg) img else img)"

text \<open>\<^verbatim>\<open>error_abs\<close> (lines 47-49). The subtraction is done in 32-bit integers, where a
  difference of two bytes is exact; the sum is taken in the platform's wide integer. Both
  arguments have the shape \<open>(height, width, 3)\<close> in every call of the program; for shapes
  that differ numpy raises, unless a dimension of size 1 can be broadcast, which is not
  modelled.\<close>

definition abs_diff :: "uint8 \<Rightarrow> uint8 \<Rightarrow> int" where
  "abs_diff x y = \<bar>uint x - uint y\<bar>"

definition error_abs :: "raster \<Rightarrow> raster \<Rightarrow> py_error + int" where
  "error_abs a b =
     (if shape0 a = shape0 b \<and> shape1 a = shape1 b then
        Inr (\<Sum>((r1, g1, b1), (r2, g2, b2)) \<leftarrow> zip (pixels a) (pixels b).
               abs_diff r1 r2 + abs_diff g1 g2 + abs_diff b1 b2)
      else Inl ValueError)"

text \<open>\<^verbatim>\<open>error_percent\<close> (lines 51-53) computes in double precision: the two operands of the
  division are converted, the quotient is rounded, and so is the product with 100. \<open>fl\<close> is
  the rounding of a real number to a double; \<open>rounding\<close> states what the theorems below use
  of it. A raster without pixels makes the divisor 0 and the result an infinity or a NaN,
  which is no real number: \<open>None\<close>.\<close>

definition rounding :: "(real \<Rightarrow> real) \<Rightarrow> bool" where
  "rounding fl \<longleftrightarrow> mono fl \<and> fl 0 = 0 \<and> fl 1 = 1 \<and> fl 100 = 100"

definition error_percent :: "(real \<Rightarrow> real) \<Rightarrow> int \<Rightarrow> raster \<Rightarrow> real option" where
  "error_percent fl error img =
     (let n = int (shape0 img) * int (shape1 img) * 255 * 3
      in if n = 0 then None
         else Some (fl (fl (fl (of_int error) / fl (of_int n)) * 100)))"

subsection \<open>The search loop\<close>

text \<open>The tuple \<^verbatim>\<open>(shapes, points, colors, image, score)\<close> that \<^verbatim>\<open>iterate\<close> takes and
  returns.\<close>

record search_state =
  cur :: polygons
  cur_image :: raster
  score :: int

text \<open>Lines 123-125 of \<^verbatim>\<open>iterate\<close>: the mutated polygon set, its raster and its score.\<close>

definition candidate ::
  "pil \<Rightarrow> config \<Rightarrow> raster \<Rightarrow> heap \<Rightarrow> polygons \<Rightarrow> nat \<Rightarrow> draw \<Rightarrow> py_error + heap \<times> search_state" where
  "candidate lib cfg internal h r index d =
     (case changes cfg h r index d of
        Inl e \<Rightarrow> Inl e
      | Inr (h', r') \<Rightarrow>
          (let new_img = draw_image lib (width cfg) (height cfg)
                             (shapes_of h' r') (points_of h' r') (colors_of h' r') False
           in case error_abs internal new_img of
                Inl e \<Rightarrow> Inl e
              | Inr new_score \<Rightarrow> Inr (h', \<lparr>cur = r', cur_image = new_img, score = new_score\<rparr>)))"

text \<open>\<^verbatim>\<open>iterate\<close> (lines 121-129).\<close>

definition iterate ::
  "pil \<Rightarrow> config \<Rightarrow> raster \<Rightarrow> heap \<Rightarrow> search_state \<Rightarrow> nat \<Rightarrow> draw \<Rightarrow> py_error + heap \<times> search_state" where
  "iterate lib cfg internal h st index d =
     (case candidate lib cfg internal h (cur st) index d of
        Inl e \<Rightarrow> Inl e
      | Inr (h', new) \<Rightarrow> if score new \<le> score st then Inr (h', new) else Inr (h', st))"

text \<open>The loop of \<^verbatim>\<open>generate\<close> (lines 146-155) runs until an exception: an interrupt, or an
  error of the body. The list holds the draws of the iterations before the interrupt; the
  result is the heap and the variables after each iteration that completed.\<close>

fun run ::
  "pil \<Rightarrow> config \<Rightarrow> raster \<Rightarrow> heap \<Rightarrow> search_state \<Rightarrow> (nat \<times> draw) list \<Rightarrow> (heap \<times> search_state) list" where
  "run lib cfg internal h st [] = []"
| "run lib cfg internal h st ((index, d) # ds) =
     (case iterate lib cfg internal h st index d of
        Inl e \<Rightarrow> []
      | Inr (h', st') \<Rightarrow> (h', st') # run lib cfg internal h' st' ds)"

text \<open>The scores the loop holds: before the first iteration and after each one.\<close>

definition scores ::
  "pil \<Rightarrow> config \<Rightarrow> raster \<Rightarrow> heap \<Rightarrow> search_state \<Rightarrow> (nat \<times> draw) list \<Rightarrow> int list" where
  "scores lib cfg internal h st ds = score st # map (\<lambda>(h', st'). score st') (run lib cfg internal h st ds)"

text \<open>Lines 137-142 of \<^verbatim>\<open>generate\<close>: the first polygon set, its raster and its score.\<close>

definition generate_start ::
  "pil \<Rightarrow> config \<Rightarrow> raster \<Rightarrow> heap \<Rightarrow> int list list \<Rightarrow> int list list \<Rightarrow> uint8 list list
     \<Rightarrow> py_error + heap \<times> search_state" where
  "generate_start lib cfg internal h xs ys cs =
     (case initialize (n_shapes cfg) (min_points cfg) (max_points cfg) (width cfg) (height cfg)
             h xs ys cs of
        Inl e \<Rightarrow> Inl e
      | Inr (h', r) \<Rightarrow>
          (let img = draw_image lib (width cfg) (height cfg)
                       (shapes_of h' r) (points_of h' r) (colors_of h' r) False
           in case error_abs internal img of
                Inl e \<Rightarrow> Inl e
              | Inr s \<Rightarrow> Inr (h', \<lparr>cur = r, cur_image = img, score = s\<rparr>)))"

subsection \<open>What an operator leaves alone\<close>

text \<open>\<open>copy_on_write h r index h' r'\<close>: going from the heap \<open>h\<close> and the polygon set \<open>r\<close> to
  \<open>h'\<close> and \<open>r'\<close>, every array of \<open>h\<close> has kept its content; one of the three references
  of \<open>r'\<close> is a new array and the other two are the references of \<open>r\<close>; and the arrays of
  \<open>r'\<close> have the lengths and, away from \<open>index\<close>, the entries of the arrays of \<open>r\<close>.\<close>

definition copy_on_write :: "heap \<Rightarrow> polygons \<Rightarrow> nat \<Rightarrow> heap \<Rightarrow> polygons \<Rightarrow> bool" where
  "copy_on_write h r index h' r' \<longleftrightarrow>
     take (length (int2d h)) (int2d h') = int2d h \<and>
     take (length (int1d h)) (int1d h') = int1d h \<and>
     take (length (u8_2d h)) (u8_2d h') = u8_2d h \<and>
     valid_refs h' r' \<and>
     (shapes r' = length (int2d h) \<and> points r' = points r \<and> colors r' = colors r \<or>
      shapes r' = shapes r \<and> points r' = length (int1d h) \<and> colors r' = colors r \<or>
      shapes r' = shapes r \<and> points r' = points r \<and> colors r' = length (u8_2d h)) \<and>
     length (shapes_of h' r') = length (shapes_of h r) \<and>
     length (points_of h' r') = length (points_of h r) \<and>
     length (colors_of h' r') = length (colors_of h r) \<and>
     list_all (\<lambda>j. j = index \<or> shapes_of h' r' ! j = shapes_of h r ! j) [0..<length (shapes_of h r)] \<and>
     list_all (\<lambda>j. j = index \<or> points_of h' r' ! j = points_of h r ! j) [0..<length (points_of h r)] \<and>
     list_all (\<lambda>j. j = index \<or> colors_of h' r' ! j = colors_of h r ! j) [0..<length (colors_of h r)]"

subsection \<open>Reading a row of \<^verbatim>\<open>shapes\<close> as coordinate pairs\<close>

text \<open>A row stores the pair \<open>j\<close> at the positions \<open>2 * j\<close> and \<open>2 * j + 1\<close>; the first
  \<^verbatim>\<open>points[index]\<close> pairs are the ones \<^verbatim>\<open>draw_image\<close> draws.\<close>

definition pair_at :: "int list \<Rightarrow> nat \<Rightarrow> int \<times> int" where
  "pair_at row j = (row ! (2 * j), row ! (2 * j + 1))"

definition active_pairs :: "int list \<Rightarrow> nat \<Rightarrow> (int \<times> int) list" where
  "active_pairs row p = map (pair_at row) [0..<p]"

subsection \<open>The bounds of the data model\<close>

text \<open>\<open>in_bounds cfg h r\<close>: every row of \<^verbatim>\<open>shapes\<close> holds \<open>max_points\<close> pairs, each within
  \<open>[0, width] \<times> [0, height]\<close>; every side count is within \<open>[min_points, max_points]\<close>; every
  colour has four channels (each a byte, so within \<open>[0, 255]\<close>); and the three arrays have
  one entry per polygon.\<close>

definition pair_in_canvas :: "config \<Rightarrow> int list \<Rightarrow> nat \<Rightarrow> bool" where
  "pair_in_canvas cfg row j \<longleftrightarrow>
     0 \<le> fst (pair_at row j) \<and> fst (pair_at row j) \<le> width cfg \<and>
     0 \<le> snd (pair_at row j) \<and> snd (pair_at row j) \<le> height cfg"

definition in_bounds :: "config \<Rightarrow> heap \<Rightarrow> polygons \<Rightarrow> bool" where
  "in_bounds cfg h r \<longleftrightarrow>
     valid_refs h r \<and>
     length (shapes_of h r) = nat (n_shapes cfg) \<and>
     length (points_of h r) = nat (n_shapes cfg) \<and>
     length (colors_of h r) = nat (n_shapes cfg) \<and>
     list_all (\<lambda>row. length row = 2 * nat (max_points cfg) \<and>
                     list_all (pair_in_canvas cfg row) [0..<nat (max_points cfg)]) (shapes_of h r) \<and>
     list_all (\<lambda>p. min_points cfg \<le> p \<and> p \<le> max_points cfg) (points_of h r) \<and>
     list_all (\<lambda>c. length c = 4 \<and> list_all (\<lambda>v. 0 \<le> uint v \<and> uint v \<le> 255) c) (colors_of h r)"

subsection \<open>A painter to run the program with\<close>

text \<open>The theorems about the rasterizer hold for every library that paints white on a white
  canvas as white (\<open>keeps_white\<close>). Their closed instances run the program with the
  painter below: it fills the bounding box of the vertices by compositing the fill
  colour over the canvas with the fill's alpha, and never resamples.\<close>

definition white_row :: "uint8 list \<Rightarrow> bool" where
  "white_row c \<longleftrightarrow> (\<exists>a. c = [255, 255, 255, a])"

definition keeps_white :: "pil \<Rightarrow> bool" where
  "keeps_white lib \<longleftrightarrow>
     (\<forall>xy a w hg. polygon lib xy [255, 255, 255, a] (new_image w hg) = new_image w hg)"

definition over :: "uint8 \<Rightarrow> uint8 \<Rightarrow> uint8 \<Rightarrow> uint8" where
  "over a dst src = to_uint8 ((uint src * uint a + uint dst * (255 - uint a)) div 255)"

definition in_box :: "int list \<Rightarrow> int \<Rightarrow> int \<Rightarrow> bool" where
  "in_box xy x y \<longleftrightarrow>
     (let xs = get_slice2 0 (length xy) xy; ys = get_slice2 1 (length xy) xy
      in list_ex (\<lambda>v. v \<le> x) xs \<and> list_ex (\<lambda>v. x \<le> v) xs \<and>
         list_ex (\<lambda>v. v \<le> y) ys \<and> list_ex (\<lambda>v. y \<le> v) ys)"

definition box_polygon :: "int list \<Rightarrow> uint8 list \<Rightarrow> raster \<Rightarrow> raster" where
  "box_polygon xy fill img =
     img\<lparr>pixels :=
       map (\<lambda>(i, (r, g, b)).
              if length fill = 4 \<and> in_box xy (int (i mod shape1 img)) (int (i div shape1 img))
              then (over (fill ! 3) r (fill ! 0), over (fill ! 3) g (fill ! 1),
                    over (fill ! 3) b (fill ! 2))
              else (r, g, b))
           (enumerate 0 (pixels img))\<rparr>"

definition box_lib :: pil where
  "box_lib = \<lparr>polygon = box_polygon, thumbnail = (\<lambda>size img. img)\<rparr>"

subsection \<open>Concrete inputs\<close>

text \<open>A polygon set of one triangle with room for five vertices on a 10 by 10 canvas, as
  \<^verbatim>\<open>initialize(1, 3, 5, 10, 10)\<close> can return it.\<close>

definition example_config :: config where
  "example_config = \<lparr>n_shapes = 1, min_points = 3, max_points = 5, width = 10, height = 10\<rparr>"

definition example_heap :: heap where
  "example_heap =
     \<lparr>int2d = [[[1, 4, 2, 5, 3, 6, 7, 8, 9, 9]]], int1d = [[3]], u8_2d = [[[200, 10, 10, 200]]]\<rparr>"

definition first_refs :: polygons where
  "first_refs = \<lparr>shapes = 0, points = 0, colors = 0\<rparr>"

text \<open>The single fixed triangle: \<^verbatim>\<open>min_points = max_points = 3\<close>, coloured white with
  alpha 255, on a 10 by 10 canvas.\<close>

definition triangle_config :: config where
  "triangle_config = \<lparr>n_shapes = 1, min_points = 3, max_points = 3, width = 10, height = 10\<rparr>"

definition triangle_heap :: heap where
  "triangle_heap =
     \<lparr>int2d = [[[1, 4, 2, 5, 3, 6]]], int1d = [[3]], u8_2d = [[[255, 255, 255, 255]]]\<rparr>"

text \<open>One black triangle on a canvas of a single pixel.\<close>

definition pixel_config :: config where
  "pixel_config = \<lparr>n_shapes = 1, min_points = 3, max_points = 3, width = 1, height = 1\<rparr>"

definition pixel_heap :: heap where
  "pixel_heap = \<lparr>int2d = [[[0, 0, 0, 0, 0, 0]]], int1d = [[3]], u8_2d = [[[0, 0, 0, 255]]]\<rparr>"

definition pixel_state :: search_state where
  "pixel_state =
     \<lparr>cur = first_refs, cur_image = \<lparr>shape0 = 1, shape1 = 1, pixels = [(0, 0, 0)]\<rparr>, score = 765\<rparr>"

definition pixel_draws :: "(nat \<times> draw) list" where
  "pixel_draws = [(0, Color (100, 100, 100)), (0, Color (- 50, 0, 0)), (0, Alpha (- 55))]"

text \<open>The state of the search at the start of the white-triangle scenario: an all-white
  raster and the score 0.\<close>

definition white_state :: search_state where
  "white_state = \<lparr>cur = first_refs, cur_image = new_image 10 10, score = 0\<rparr>"

section \<open>Properties\<close>

lemmas heap_defs = copy_int2d_def copy_int1d_def copy_u8_2d_def store_int2d_def store_int1d_def
  store_u8_2d_def shapes_of_def points_of_def colors_of_def valid_refs_def

subsection \<open>The number operator\<close>

text \<open>Claim C5, amended. Where \<open>min_points < max_points\<close>: applied to a side count equal to
  \<open>min_points\<close>, \<^verbatim>\<open>number\<close> adds exactly 1 to it; applied to a side count equal to
  \<open>max_points\<close>, it subtracts exactly 1; applied to any other side count it adds the drawn
  step, which is 1 or -1. Whatever the bounds are, no other side count changes, the array
  it was given keeps its content, and the shapes and colors arrays are passed through as
  they are.\<close>

theorem number_steps:
  assumes "valid_refs h r" and "index < length (points_of h r)"
  shows "\<exists>h' r'. number cfg h r index step = Inr (h', r') \<and>
     (min_points cfg < max_points cfg \<and> points_of h r ! index = min_points cfg
        \<longrightarrow> points_of h' r' ! index = points_of h r ! index + 1) \<and>
     (min_points cfg < max_points cfg \<and> points_of h r ! index = max_points cfg
        \<longrightarrow> points_of h' r' ! index = points_of h r ! index - 1) \<and>
     (points_of h r ! index \<noteq> min_points cfg \<and> points_of h r ! index \<noteq> max_points cfg
        \<longrightarrow> points_of h' r' ! index = points_of h r ! index + step) \<and>
     length (points_of h' r') = length (points_of h r) \<and>
     (\<forall>j. j \<noteq> index \<longrightarrow> points_of h' r' ! j = points_of h r ! j) \<and>
     points_of h' r = points_of h r \<and>
     shapes r' = shapes r \<and> colors r' = colors r \<and>
     shapes_of h' r' = shapes_of h r \<and> colors_of h' r' = colors_of h r"
  using assms
  by (auto simp: number_def heap_defs Let_def nth_append)

theorem number_steps_witness:
  "valid_refs example_heap first_refs \<and> 0 < length (points_of example_heap first_refs) \<and>
   min_points example_config < max_points example_config \<and>
   points_of example_heap first_refs ! 0 = min_points example_config \<and>
   (\<exists>h' r'. number example_config example_heap first_refs 0 (- 1) = Inr (h', r') \<and>
      points_of h' r' = [4] \<and> points_of h' first_refs = [3])"
  using number_steps[of example_heap first_refs 0 example_config "- 1"]
  by (simp add: number_def example_config_def example_heap_def first_refs_def heap_defs)

text \<open>Claim C5 as stated fails where \<open>min_points = max_points\<close>: the side count 3 equals
  \<open>max_points\<close>, and \<^verbatim>\<open>number\<close> makes it 4, not 2.\<close>

theorem number_at_max_counterexample:
  "points_of triangle_heap first_refs ! 0 = max_points triangle_config \<and>
   number triangle_config triangle_heap first_refs 0 (- 1) =
     Inr (\<lparr>int2d = [[[1, 4, 2, 5, 3, 6]]], int1d = [[3], [4]], u8_2d = [[[255, 255, 255, 255]]]\<rparr>,
          \<lparr>shapes = 0, points = 1, colors = 0\<rparr>)"
  by (simp add: number_def triangle_config_def triangle_heap_def first_refs_def heap_defs)

subsection \<open>The bounds of a polygon set\<close>

text \<open>Claim C2 at \<open>min_points = max_points = 3\<close>: the polygon set that \<^verbatim>\<open>initialize\<close>
  returns has the side count 3, and one application of \<^verbatim>\<open>number\<close> to it gives the side
  count 4, above \<open>max_points\<close>.\<close>

theorem number_leaves_bounds:
  "initialize 1 3 3 10 10 empty_heap [[1, 2, 3]] [[4, 5, 6]] [[255, 255, 255, 255]] =
     Inr (triangle_heap, first_refs) \<and>
   number triangle_config triangle_heap first_refs 0 1 =
     Inr (\<lparr>int2d = [[[1, 4, 2, 5, 3, 6]]], int1d = [[3], [4]], u8_2d = [[[255, 255, 255, 255]]]\<rparr>,
          \<lparr>shapes = 0, points = 1, colors = 0\<rparr>) \<and>
   max_points triangle_config < 4"
  by (simp add: number_def initialize_def too_big_def empty_heap_def set_slice2_def upt_conv_Cons
      triangle_config_def triangle_heap_def first_refs_def heap_defs)

subsection \<open>The color and alpha operators\<close>

text \<open>Claim C4 at a sum above 255: the red channel 200 with the offset 100 becomes 0, and
  so does the alpha channel 200 with the offset 100; the claim says 255.\<close>

theorem color_alpha_wrap:
  "color example_config example_heap first_refs 0 (100, 0, 0) =
     Inr (\<lparr>int2d = [[[1, 4, 2, 5, 3, 6, 7, 8, 9, 9]]], int1d = [[3]],
            u8_2d = [[[200, 10, 10, 200]], [[0, 10, 10, 200]]]\<rparr>,
          \<lparr>shapes = 0, points = 0, colors = 1\<rparr>) \<and>
   alpha example_config example_heap first_refs 0 100 =
     Inr (\<lparr>int2d = [[[1, 4, 2, 5, 3, 6, 7, 8, 9, 9]]], int1d = [[3]],
            u8_2d = [[[200, 10, 10, 200]], [[200, 10, 10, 0]]]\<rparr>,
          \<lparr>shapes = 0, points = 0, colors = 1\<rparr>)"
  by (simp add: color_def alpha_def example_heap_def first_refs_def heap_defs np_clip_def
      to_uint8_def)

subsection \<open>The point operator\<close>

lemma np_clip_range: "0 \<le> hi \<Longrightarrow> 0 \<le> np_clip a 0 hi \<and> np_clip a 0 hi \<le> hi"
  by (simp add: np_clip_def)

text \<open>Claim C3, amended. \<^verbatim>\<open>point\<close> picks one of the \<open>max_points\<close> stored coordinate
  pairs of the target polygon (\<open>choice < max_points\<close>; the pair may be active or inert),
  adds the drawn offsets to its x and y, and clips the pair to \<open>[0, width] \<times> [0, height]\<close>.
  Every other pair of that polygon and every other polygon is unchanged, the array it was
  given keeps its content, and the points and colors arrays are passed through. The
  offsets are the draws of \<^verbatim>\<open>randint(-R, R+1)\<close>, the integers of \<open>[-R, R]\<close> for
  \<open>R = max(width, height) / 2\<close>; the statement holds for every offset.\<close>

theorem point_moves_one_pair:
  assumes "valid_refs h r" and "index < length (shapes_of h r)"
    and "length (shapes_of h r ! index) = 2 * nat (max_points cfg)"
    and "int choice < max_points cfg"
  shows "\<exists>h' r'. point cfg h r index change choice = Inr (h', r') \<and>
     pair_at (shapes_of h' r' ! index) choice =
       (np_clip (fst (pair_at (shapes_of h r ! index) choice) + fst change) 0 (width cfg),
        np_clip (snd (pair_at (shapes_of h r ! index) choice) + snd change) 0 (height cfg)) \<and>
     (0 \<le> width cfg \<and> 0 \<le> height cfg \<longrightarrow>
        0 \<le> fst (pair_at (shapes_of h' r' ! index) choice) \<and>
        fst (pair_at (shapes_of h' r' ! index) choice) \<le> width cfg \<and>
        0 \<le> snd (pair_at (shapes_of h' r' ! index) choice) \<and>
        snd (pair_at (shapes_of h' r' ! index) choice) \<le> height cfg) \<and>
     length (shapes_of h' r' ! index) = length (shapes_of h r ! index) \<and>
     (\<forall>j. j \<noteq> choice \<longrightarrow> pair_at (shapes_of h' r' ! index) j = pair_at (shapes_of h r ! index) j) \<and>
     length (shapes_of h' r') = length (shapes_of h r) \<and>
     (\<forall>i. i \<noteq> index \<longrightarrow> shapes_of h' r' ! i = shapes_of h r ! i) \<and>
     shapes_of h' r = shapes_of h r \<and>
     points r' = points r \<and> colors r' = colors r \<and>
     points_of h' r' = points_of h r \<and> colors_of h' r' = colors_of h r"
proof -
  let ?arr = "shapes_of h r"
  let ?row = "?arr ! index"
  have len: "choice * 2 + 2 \<le> length ?row"
    using assms(3,4) by simp
  define row' where "row' = ?row[choice * 2 := np_clip (?row ! (choice * 2) + fst change) 0 (width cfg),
      choice * 2 + 1 := np_clip (?row ! (choice * 2 + 1) + snd change) 0 (height cfg)]"
  define h' where "h' = h\<lparr>int2d := int2d h @ [?arr[index := row']]\<rparr>"
  define r' where "r' = r\<lparr>shapes := length (int2d h)\<rparr>"
  have run: "point cfg h r index change choice = Inr (h', r')"
    using assms(1,2) len
    by (simp add: point_def heap_defs Let_def nth_append h'_def r'_def row'_def)
  have arr': "shapes_of h' r' = ?arr[index := row']"
    by (simp add: h'_def r'_def heap_defs)
  have row'_at: "shapes_of h' r' ! index = row'"
    using assms(2) by (simp add: arr')
  have p1: "pair_at row' choice =
       (np_clip (fst (pair_at ?row choice) + fst change) 0 (width cfg),
        np_clip (snd (pair_at ?row choice) + snd change) 0 (height cfg))"
    using len by (simp add: row'_def pair_at_def mult.commute)
  have p2: "\<forall>j. j \<noteq> choice \<longrightarrow> pair_at row' j = pair_at ?row j"
    by (auto simp: row'_def pair_at_def mult.commute) 
  have rest: "shapes_of h' r = shapes_of h r" "points_of h' r' = points_of h r"
      "colors_of h' r' = colors_of h r" "points r' = points r" "colors r' = colors r"
    using assms(1) by (simp_all add: h'_def r'_def heap_defs nth_append)
  have bounds: "0 \<le> width cfg \<and> 0 \<le> height cfg \<longrightarrow>
        0 \<le> fst (pair_at row' choice) \<and> fst (pair_at row' choice) \<le> width cfg \<and>
        0 \<le> snd (pair_at row' choice) \<and> snd (pair_at row' choice) \<le> height cfg"
    using np_clip_range[of "width cfg"] np_clip_range[of "height cfg"] by (simp add: p1)
  have lens: "length row' = length ?row" "length (shapes_of h' r') = length ?arr"
      "\<forall>i. i \<noteq> index \<longrightarrow> shapes_of h' r' ! i = ?arr ! i"
    by (simp_all add: row'_def arr')
  show ?thesis
    apply (rule exI[of _ h'], rule exI[of _ r'])
    using run p1 p2 bounds lens rest by (simp add: row'_at)
qed


theorem point_moves_one_pair_witness:
  "valid_refs example_heap first_refs \<and> 0 < length (shapes_of example_heap first_refs) \<and>
   length (shapes_of example_heap first_refs ! 0) = 2 * nat (max_points example_config) \<and>
   int 1 < max_points example_config \<and> 0 \<le> width example_config \<and> 0 \<le> height example_config \<and>
   (\<exists>h' r'. point example_config example_heap first_refs 0 (20, - 3) 1 = Inr (h', r') \<and>
      shapes_of h' r' = [[1, 4, 10, 2, 3, 6, 7, 8, 9, 9]] \<and>
      shapes_of h' first_refs = [[1, 4, 2, 5, 3, 6, 7, 8, 9, 9]])"
  using point_moves_one_pair[of example_heap first_refs 0 example_config 1 "(20, - 3)"]
  by (simp add: point_def example_config_def example_heap_def first_refs_def heap_defs np_clip_def)

text \<open>Claim C3 as stated fails: with three active pairs of five, the draw
  \<^verbatim>\<open>np.random.choice(max_points) = 4\<close> is one the library can return, and \<^verbatim>\<open>point\<close> then
  moves the inert pair 4 from \<open>(9, 9)\<close> to \<open>(10, 8)\<close> and no active pair.\<close>

theorem point_inert_pair_counterexample:
  "valid_draw example_config example_heap first_refs 0 (Point (1, - 1) 4) \<and>
   points_of example_heap first_refs ! 0 = 3 \<and>
   changes example_config example_heap first_refs 0 (Point (1, - 1) 4) =
     Inr (\<lparr>int2d = [[[1, 4, 2, 5, 3, 6, 7, 8, 9, 9]], [[1, 4, 2, 5, 3, 6, 7, 8, 10, 8]]],
            int1d = [[3]], u8_2d = [[[200, 10, 10, 200]]]\<rparr>,
          \<lparr>shapes = 1, points = 0, colors = 0\<rparr>)"
  by (simp add: changes_def valid_draw_def valid_offset_def point_def example_config_def example_heap_def first_refs_def heap_defs np_clip_def)

subsection \<open>The order operator\<close>

lemma length_get_slice2_0: "2 * p \<le> length row \<Longrightarrow> length (get_slice2 0 (2 * p) row) = p"
  by (simp add: get_slice2_def slice2_len_def)

lemma length_get_slice2_1: "2 * p \<le> length row \<Longrightarrow> length (get_slice2 (Suc 0) (2 * p) row) = p"
  by (cases p) (simp_all add: get_slice2_def slice2_len_def)

lemma nth_get_slice2:
  "j < slice2_len start stop (length row) \<Longrightarrow> get_slice2 start stop row ! j = row ! (start + 2 * j)"
  by (simp add: get_slice2_def)

lemma length_set_slice2 [simp]: "length (set_slice2 start stop row vs) = length row"
  by (simp add: set_slice2_def)

lemma nth_set_slice2:
  "k < length row \<Longrightarrow> set_slice2 start stop row vs ! k =
     (if start \<le> k \<and> k < stop \<and> even (k - start) then vs ! ((k - start) div 2) else row ! k)"
  by (simp add: set_slice2_def del: even_diff_nat)

lemma assign_slice2_0:
  "2 * p \<le> length row \<Longrightarrow> length vs = p \<Longrightarrow>
   assign_slice2 0 (2 * p) row vs = Inr (set_slice2 0 (2 * p) row vs)"
  by (simp add: assign_slice2_def slice2_len_def)

lemma assign_slice2_1:
  "2 * p \<le> length row \<Longrightarrow> length vs = p \<Longrightarrow>
   assign_slice2 (Suc 0) (2 * p) row vs = Inr (set_slice2 (Suc 0) (2 * p) row vs)"
  by (cases p) (simp_all add: assign_slice2_def slice2_len_def)

lemma py_stop_nonneg: "0 \<le> p \<Longrightarrow> py_stop (p * 2) len = 2 * nat p"
  by (simp add: py_stop_def nat_mult_distrib)

lemma perm_range:
  assumes "mset shuffle = mset [0..<p]"
  shows "length shuffle = p" and "list_all (\<lambda>i. i < p) shuffle"
proof -
  show "length shuffle = p"
    using assms by (metis length_upt mset_eq_length minus_nat.diff_0)
  have "set shuffle = {0..<p}"
    using assms by (metis mset_eq_setD set_upt)
  then show "list_all (\<lambda>i. i < p) shuffle"
    by (simp add: list_all_iff)
qed

text \<open>The row after the two strided assignments of \<^verbatim>\<open>order\<close>: pair \<open>j\<close> of the result is
  pair \<open>shuffle ! j\<close> of the row, and the pairs from \<open>p\<close> on stay.\<close>

lemma order_row:
  assumes len: "2 * p \<le> length row" and perm: "mset shuffle = mset [0..<p]"
  defines "xs \<equiv> get_slice2 0 (2 * p) row"
  defines "row1 \<equiv> set_slice2 0 (2 * p) row (map (\<lambda>i. xs ! i) shuffle)"
  defines "ys \<equiv> get_slice2 (Suc 0) (2 * p) row1"
  defines "row2 \<equiv> set_slice2 (Suc 0) (2 * p) row1 (map (\<lambda>i. ys ! i) shuffle)"
  shows "length row2 = length row"
    and "\<forall>j<p. pair_at row2 j = pair_at row (shuffle ! j)"
    and "drop (2 * p) row2 = drop (2 * p) row"
proof -
  have ls: "length shuffle = p" and all: "list_all (\<lambda>i. i < p) shuffle"
    using perm_range[OF perm] by simp_all
  have in_p: "\<And>j. j < p \<Longrightarrow> shuffle ! j < p"
    using all ls by (simp add: list_all_length)
  show "length row2 = length row" by (simp add: row2_def row1_def)
  have lr1: "length row1 = length row" by (simp add: row1_def)
  have sl0: "slice2_len 0 (2 * p) (length row) = p" using len by (simp add: slice2_len_def)
  have sl1: "slice2_len (Suc 0) (2 * p) (length row) = p" using len by (cases p) (simp_all add: slice2_len_def)
  have xs_at: "\<And>i. i < p \<Longrightarrow> xs ! i = row ! (2 * i)"
    by (simp add: xs_def nth_get_slice2 sl0)
  have row1_even: "\<And>j. j < p \<Longrightarrow> row1 ! (2 * j) = row ! (2 * (shuffle ! j))"
    using len ls in_p by (simp add: row1_def nth_set_slice2 xs_at)
  have row1_odd: "\<And>j. Suc (2 * j) < length row \<Longrightarrow> row1 ! Suc (2 * j) = row ! Suc (2 * j)"
    by (simp add: row1_def nth_set_slice2)
  have ys_at: "\<And>i. i < p \<Longrightarrow> ys ! i = row ! Suc (2 * i)"
    using len by (simp add: ys_def nth_get_slice2 sl1 lr1 row1_odd)
  have row2_even: "\<And>j. j < p \<Longrightarrow> row2 ! (2 * j) = row1 ! (2 * j)"
  proof -
    fix j assume "j < p"
    then have "2 * j < length row1" using len lr1 by simp
    moreover have "\<not> (Suc 0 \<le> 2 * j \<and> even (2 * j - Suc 0))"
      by (cases j) simp_all
    ultimately show "row2 ! (2 * j) = row1 ! (2 * j)"
      by (simp add: row2_def nth_set_slice2)
  qed
  have row2_odd: "\<And>j. j < p \<Longrightarrow> row2 ! Suc (2 * j) = row ! Suc (2 * (shuffle ! j))"
    using len ls in_p lr1 by (simp add: row2_def nth_set_slice2 ys_at)
  show "\<forall>j<p. pair_at row2 j = pair_at row (shuffle ! j)"
    by (simp add: pair_at_def row2_even row1_even row2_odd)
  show "drop (2 * p) row2 = drop (2 * p) row"
    by (rule nth_equalityI) (simp_all add: row2_def row1_def nth_set_slice2)
qed


lemma row_eq_from_pairs:
  assumes "length row2 = length row" and "2 * p \<le> length row"
    and "\<forall>j<p. pair_at row2 j = pair_at row j" and "drop (2 * p) row2 = drop (2 * p) row"
  shows "row2 = row"
proof (rule nth_equalityI)
  show "length row2 = length row" by (rule assms(1))
  fix k assume k: "k < length row2"
  show "row2 ! k = row ! k"
  proof (cases "k < 2 * p")
    case True
    then have j: "k div 2 < p" by auto
    have "pair_at row2 (k div 2) = pair_at row (k div 2)" using assms(3) j by blast
    then show ?thesis
      by (cases "even k") (auto simp: pair_at_def elim!: evenE oddE)
  next
    case False
    then have "row2 ! k = drop (2 * p) row2 ! (k - 2 * p)" using k by simp
    also have "\<dots> = drop (2 * p) row ! (k - 2 * p)" by (simp only: assms(4))
    also have "\<dots> = row ! k" using False k assms(1) by simp
    finally show ?thesis .
  qed
qed

text \<open>Claim C6, amended. For every polygon set whose target polygon has a side count
  \<open>p = points[index]\<close> with \<open>0 \<le> p\<close> and all its \<open>p\<close> active pairs stored in the row
  (\<open>2 * p\<close> is at most the length of the row, that is \<open>p \<le> max_points\<close>), and for every
  permutation \<open>shuffle\<close> of \<open>0..p-1\<close>, \<^verbatim>\<open>order\<close> returns and puts pair \<open>shuffle ! j\<close> at place \<open>j\<close> for every \<open>j < p\<close>: x and y move
  together under the one permutation. So the multiset of active pairs is the same, the
  inert pairs (from \<open>p\<close> on) are untouched, and for \<open>p = 1\<close> the shapes array has the
  content it had. No other polygon changes, the array it was given keeps its content, and
  the points and colors arrays are passed through.\<close>

theorem order_permutes_active_pairs:
  assumes "valid_refs h r" and "index < length (shapes_of h r)"
    and "index < length (points_of h r)"
    and "0 \<le> points_of h r ! index"
    and "2 * nat (points_of h r ! index) \<le> length (shapes_of h r ! index)"
    and "mset shuffle = mset [0..<nat (points_of h r ! index)]"
  shows "\<exists>h' r'. order cfg h r index shuffle = Inr (h', r') \<and>
     active_pairs (shapes_of h' r' ! index) (nat (points_of h r ! index)) =
       map (pair_at (shapes_of h r ! index)) shuffle \<and>
     mset (active_pairs (shapes_of h' r' ! index) (nat (points_of h r ! index))) =
       mset (active_pairs (shapes_of h r ! index) (nat (points_of h r ! index))) \<and>
     drop (2 * nat (points_of h r ! index)) (shapes_of h' r' ! index) =
       drop (2 * nat (points_of h r ! index)) (shapes_of h r ! index) \<and>
     length (shapes_of h' r' ! index) = length (shapes_of h r ! index) \<and>
     (points_of h r ! index = 1 \<longrightarrow> shapes_of h' r' = shapes_of h r) \<and>
     length (shapes_of h' r') = length (shapes_of h r) \<and>
     (\<forall>i. i \<noteq> index \<longrightarrow> shapes_of h' r' ! i = shapes_of h r ! i) \<and>
     shapes_of h' r = shapes_of h r \<and>
     points r' = points r \<and> colors r' = colors r \<and>
     points_of h' r' = points_of h r \<and> colors_of h' r' = colors_of h r"
proof -
  let ?arr = "shapes_of h r"
  let ?row = "?arr ! index"
  define p where "p = nat (points_of h r ! index)"
  define xs where "xs = get_slice2 0 (2 * p) ?row"
  define row1 where "row1 = set_slice2 0 (2 * p) ?row (map (\<lambda>i. xs ! i) shuffle)"
  define ys where "ys = get_slice2 (Suc 0) (2 * p) row1"
  define row2 where "row2 = set_slice2 (Suc 0) (2 * p) row1 (map (\<lambda>i. ys ! i) shuffle)"
  define h' where "h' = h\<lparr>int2d := int2d h @ [?arr[index := row2]]\<rparr>"
  define r' where "r' = r\<lparr>shapes := length (int2d h)\<rparr>"
  have len: "2 * p \<le> length ?row" and perm: "mset shuffle = mset [0..<p]"
    using assms(5,6) by (simp_all add: p_def)
  have ls: "length shuffle = p" and all: "list_all (\<lambda>i. i < p) shuffle"
    using perm_range[OF perm] by simp_all
  have lxs: "length xs = p" using len by (simp add: xs_def length_get_slice2_0)
  have lys: "length ys = p" using len by (simp add: ys_def row1_def length_get_slice2_1)
  have stop: "py_stop (points_of h r ! index * 2) (length ?row) = 2 * p"
    using assms(4) by (simp add: p_def py_stop_nonneg)
  have a0: "assign_slice2 0 (2 * p) ?row (map (\<lambda>i. xs ! i) shuffle) = Inr row1"
    using len ls by (simp add: assign_slice2_0 row1_def)
  have a1: "assign_slice2 (Suc 0) (2 * p) row1 (map (\<lambda>i. ys ! i) shuffle) = Inr row2"
    using len ls by (simp add: assign_slice2_1 row2_def row1_def)
  have run: "order cfg h r index shuffle = Inr (h', r')"
    using assms(1-4) stop ls all lxs lys a0 a1
    unfolding order_def xs_def ys_def
    by (simp add: heap_defs Let_def nth_append h'_def r'_def)
  have facts: "length row2 = length ?row" "\<forall>j<p. pair_at row2 j = pair_at ?row (shuffle ! j)"
      "drop (2 * p) row2 = drop (2 * p) ?row"
    using order_row[OF len perm] by (simp_all add: row2_def ys_def row1_def xs_def)
  have arr': "shapes_of h' r' = ?arr[index := row2]"
    by (simp add: h'_def r'_def heap_defs)
  have row'_at: "shapes_of h' r' ! index = row2"
    using assms(2) by (simp add: arr')
  have act: "active_pairs row2 p = map (pair_at ?row) shuffle"
    using facts(2) ls by (auto simp: active_pairs_def intro!: nth_equalityI)
  have "mset (map (pair_at ?row) shuffle) = image_mset (pair_at ?row) (mset shuffle)"
    by simp
  also have "\<dots> = image_mset (pair_at ?row) (mset [0..<p])"
    by (simp only: perm)
  also have "\<dots> = mset (active_pairs ?row p)"
    by (simp add: active_pairs_def)
  finally have ms: "mset (active_pairs row2 p) = mset (active_pairs ?row p)"
    by (simp only: act)
  have one: "points_of h r ! index = 1 \<longrightarrow> shapes_of h' r' = shapes_of h r"
  proof
    assume "points_of h r ! index = 1"
    then have p1: "p = 1" by (simp add: p_def)
    then have "mset shuffle = {#0#}" using perm by simp
    then have "shuffle = [0]" by (simp add: mset_single_iff_right)
    then have "\<forall>j<p. pair_at row2 j = pair_at ?row j" using facts(2) p1 by simp
    then have "row2 = ?row" using row_eq_from_pairs facts(1,3) len by blast
    then show "shapes_of h' r' = shapes_of h r" by (simp add: arr')
  qed
  have rest: "shapes_of h' r = shapes_of h r" "points_of h' r' = points_of h r"
      "colors_of h' r' = colors_of h r" "points r' = points r" "colors r' = colors r"
      "length (shapes_of h' r') = length ?arr"
      "\<forall>i. i \<noteq> index \<longrightarrow> shapes_of h' r' ! i = ?arr ! i"
    using assms(1) by (simp_all add: h'_def r'_def heap_defs nth_append)
  show ?thesis
    apply (rule exI[of _ h'], rule exI[of _ r'])
    using run act ms facts(1,3) one rest unfolding row'_at p_def by blast
qed


theorem order_permutes_active_pairs_witness:
  "valid_refs example_heap first_refs \<and> 0 < length (shapes_of example_heap first_refs) \<and>
   0 < length (points_of example_heap first_refs) \<and>
   0 \<le> points_of example_heap first_refs ! 0 \<and>
   2 * nat (points_of example_heap first_refs ! 0) \<le> length (shapes_of example_heap first_refs ! 0) \<and>
   mset [2, 0, 1] = mset [0..<nat (points_of example_heap first_refs ! 0)] \<and>
   (\<exists>h' r'. order example_config example_heap first_refs 0 [2, 0, 1] = Inr (h', r') \<and>
      shapes_of h' r' = [[3, 6, 1, 4, 2, 5, 7, 8, 9, 9]] \<and>
      shapes_of h' first_refs = [[1, 4, 2, 5, 3, 6, 7, 8, 9, 9]])"
  using order_permutes_active_pairs[of example_heap first_refs 0 "[2, 0, 1]" example_config]
  by (simp add: order_def example_config_def example_heap_def first_refs_def heap_defs
      py_stop_def assign_slice2_def Let_def
      get_slice2_def set_slice2_def slice2_len_def upt_conv_Cons numeral_3_eq_3)

text \<open>Claim C6 as stated, for every polygon set, fails on a polygon set that the program
  reaches when \<open>min_points = max_points\<close>: \<^verbatim>\<open>number\<close> turns the side count 3 of a row of
  three pairs into 4; then \<^verbatim>\<open>shapes[index][:8:2]\<close> has three entries, every permutation
  of \<open>0..3\<close> holds the index 3, and \<^verbatim>\<open>order\<close> raises \<^verbatim>\<open>IndexError\<close> instead of permuting
  the pairs.\<close>

theorem order_beyond_row_counterexample:
  "number triangle_config triangle_heap first_refs 0 1 =
     Inr (\<lparr>int2d = [[[1, 4, 2, 5, 3, 6]]], int1d = [[3], [4]], u8_2d = [[[255, 255, 255, 255]]]\<rparr>,
          \<lparr>shapes = 0, points = 1, colors = 0\<rparr>) \<and>
   valid_draw triangle_config
     \<lparr>int2d = [[[1, 4, 2, 5, 3, 6]]], int1d = [[3], [4]], u8_2d = [[[255, 255, 255, 255]]]\<rparr>
     \<lparr>shapes = 0, points = 1, colors = 0\<rparr> 0 (Order [3, 0, 2, 1]) \<and>
   order triangle_config
     \<lparr>int2d = [[[1, 4, 2, 5, 3, 6]]], int1d = [[3], [4]], u8_2d = [[[255, 255, 255, 255]]]\<rparr>
     \<lparr>shapes = 0, points = 1, colors = 0\<rparr> 0 [3, 0, 2, 1] = Inl IndexError"
proof -
  have n: "number triangle_config triangle_heap first_refs 0 1 =
     Inr (\<lparr>int2d = [[[1, 4, 2, 5, 3, 6]]], int1d = [[3], [4]], u8_2d = [[[255, 255, 255, 255]]]\<rparr>,
          \<lparr>shapes = 0, points = 1, colors = 0\<rparr>)"
    by (simp add: number_def triangle_config_def triangle_heap_def first_refs_def heap_defs)
  have v: "valid_draw triangle_config
     \<lparr>int2d = [[[1, 4, 2, 5, 3, 6]]], int1d = [[3], [4]], u8_2d = [[[255, 255, 255, 255]]]\<rparr>
     \<lparr>shapes = 0, points = 1, colors = 0\<rparr> 0 (Order [3, 0, 2, 1])"
    by (simp add: valid_draw_def triangle_config_def heap_defs upt_conv_Cons
        numeral_2_eq_2 numeral_3_eq_3 add_mset_commute)
  have o: "order triangle_config
     \<lparr>int2d = [[[1, 4, 2, 5, 3, 6]]], int1d = [[3], [4]], u8_2d = [[[255, 255, 255, 255]]]\<rparr>
     \<lparr>shapes = 0, points = 1, colors = 0\<rparr> 0 [3, 0, 2, 1] = Inl IndexError"
    by (simp add: order_def heap_defs py_stop_def get_slice2_def slice2_len_def Let_def
        upt_conv_Cons)
  show ?thesis using n v o by simp
qed

subsection \<open>Copy on write\<close>

lemma point_cow:
  "valid_refs h r \<Longrightarrow> point cfg h r index change choice = Inr (h', r') \<Longrightarrow> copy_on_write h r index h' r'"
  by (auto simp: point_def copy_on_write_def heap_defs Let_def nth_append list_all_iff nth_list_update split: if_splits)

lemma shape_cow:
  "valid_refs h r \<Longrightarrow> shape cfg h r index change = Inr (h', r') \<Longrightarrow> copy_on_write h r index h' r'"
  by (auto simp: shape_def copy_on_write_def heap_defs Let_def nth_append list_all_iff nth_list_update split: if_splits)

lemma order_cow:
  "valid_refs h r \<Longrightarrow> order cfg h r index shuffle = Inr (h', r') \<Longrightarrow> copy_on_write h r index h' r'"
  unfolding order_def
  by (auto simp: copy_on_write_def heap_defs Let_def nth_append list_all_iff nth_list_update
      split: if_splits sum.splits)

lemma number_cow:
  "valid_refs h r \<Longrightarrow> number cfg h r index step = Inr (h', r') \<Longrightarrow> copy_on_write h r index h' r'"
  by (auto simp: number_def copy_on_write_def heap_defs Let_def nth_append list_all_iff nth_list_update split: if_splits)

lemma color_cow:
  "valid_refs h r \<Longrightarrow> color cfg h r index change = Inr (h', r') \<Longrightarrow> copy_on_write h r index h' r'"
  by (auto simp: color_def copy_on_write_def heap_defs Let_def nth_append list_all_iff nth_list_update split: if_splits)

lemma alpha_cow:
  "valid_refs h r \<Longrightarrow> alpha cfg h r index change = Inr (h', r') \<Longrightarrow> copy_on_write h r index h' r'"
  by (auto simp: alpha_def copy_on_write_def heap_defs Let_def nth_append list_all_iff nth_list_update split: if_splits)

lemma changes_cow:
  "valid_refs h r \<Longrightarrow> changes cfg h r index d = Inr (h', r') \<Longrightarrow> copy_on_write h r index h' r'"
  by (cases d) (simp_all add: changes_def point_cow shape_cow order_cow number_cow color_cow alpha_cow)


text \<open>Claim C8, amended. Every operator application that returns leaves the arrays it was
  given with the content they had (the prior polygon set survives), returns exactly one of
  the three containers as a new array and passes the other two through as the arrays they
  were; within the new array only the target polygon's entry can differ from the array it
  copies. The new array need not differ in content (see the counterexample).\<close>

theorem changes_copy_on_write:
  assumes "valid_refs h r" and "changes cfg h r index d = Inr (h', r')"
  shows "shapes_of h' r = shapes_of h r \<and> points_of h' r = points_of h r \<and>
     colors_of h' r = colors_of h r \<and>
     valid_refs h' r' \<and>
     (shapes r' \<noteq> shapes r \<and> shapes r' = length (int2d h) \<and>
        points r' = points r \<and> colors r' = colors r \<and>
        points_of h' r' = points_of h r \<and> colors_of h' r' = colors_of h r \<or>
      points r' \<noteq> points r \<and> points r' = length (int1d h) \<and>
        shapes r' = shapes r \<and> colors r' = colors r \<and>
        shapes_of h' r' = shapes_of h r \<and> colors_of h' r' = colors_of h r \<or>
      colors r' \<noteq> colors r \<and> colors r' = length (u8_2d h) \<and>
        shapes r' = shapes r \<and> points r' = points r \<and>
        shapes_of h' r' = shapes_of h r \<and> points_of h' r' = points_of h r) \<and>
     length (shapes_of h' r') = length (shapes_of h r) \<and>
     length (points_of h' r') = length (points_of h r) \<and>
     length (colors_of h' r') = length (colors_of h r) \<and>
     (\<forall>j. j \<noteq> index \<longrightarrow>
        (j < length (shapes_of h r) \<longrightarrow> shapes_of h' r' ! j = shapes_of h r ! j) \<and>
        (j < length (points_of h r) \<longrightarrow> points_of h' r' ! j = points_of h r ! j) \<and>
        (j < length (colors_of h r) \<longrightarrow> colors_of h' r' ! j = colors_of h r ! j))"
proof -
  have cow: "copy_on_write h r index h' r'"
    using assms by (rule changes_cow)
  have keep2: "\<And>a. a < length (int2d h) \<Longrightarrow> int2d h' ! a = int2d h ! a"
    using cow unfolding copy_on_write_def by (metis nth_take)
  have keep1: "\<And>a. a < length (int1d h) \<Longrightarrow> int1d h' ! a = int1d h ! a"
    using cow unfolding copy_on_write_def by (metis nth_take)
  have keep8: "\<And>a. a < length (u8_2d h) \<Longrightarrow> u8_2d h' ! a = u8_2d h ! a"
    using cow unfolding copy_on_write_def by (metis nth_take)
  have old: "shapes_of h' r = shapes_of h r" "points_of h' r = points_of h r"
      "colors_of h' r = colors_of h r"
    using assms(1) keep2 keep1 keep8 by (simp_all add: heap_defs)
  have refs: "shapes r' = length (int2d h) \<and> points r' = points r \<and> colors r' = colors r \<or>
      shapes r' = shapes r \<and> points r' = length (int1d h) \<and> colors r' = colors r \<or>
      shapes r' = shapes r \<and> points r' = points r \<and> colors r' = length (u8_2d h)"
    using cow unfolding copy_on_write_def by blast
  have one: "shapes r' \<noteq> shapes r \<and> shapes r' = length (int2d h) \<and>
        points r' = points r \<and> colors r' = colors r \<and>
        points_of h' r' = points_of h r \<and> colors_of h' r' = colors_of h r \<or>
      points r' \<noteq> points r \<and> points r' = length (int1d h) \<and>
        shapes r' = shapes r \<and> colors r' = colors r \<and>
        shapes_of h' r' = shapes_of h r \<and> colors_of h' r' = colors_of h r \<or>
      colors r' \<noteq> colors r \<and> colors r' = length (u8_2d h) \<and>
        shapes r' = shapes r \<and> points r' = points r \<and>
        shapes_of h' r' = shapes_of h r \<and> points_of h' r' = points_of h r"
    using refs assms(1) old by (auto simp: heap_defs)
  have rest: "valid_refs h' r'" "length (shapes_of h' r') = length (shapes_of h r)"
      "length (points_of h' r') = length (points_of h r)"
      "length (colors_of h' r') = length (colors_of h r)"
    using cow unfolding copy_on_write_def by blast+
  have others: "\<forall>j. j \<noteq> index \<longrightarrow>
        (j < length (shapes_of h r) \<longrightarrow> shapes_of h' r' ! j = shapes_of h r ! j) \<and>
        (j < length (points_of h r) \<longrightarrow> points_of h' r' ! j = points_of h r ! j) \<and>
        (j < length (colors_of h r) \<longrightarrow> colors_of h' r' ! j = colors_of h r ! j)"
    using cow unfolding copy_on_write_def list_all_iff by auto
  show ?thesis
    using old one rest others by blast
qed

theorem changes_copy_on_write_witness:
  "valid_refs example_heap first_refs \<and>
   changes example_config example_heap first_refs 0 (Alpha (- 50)) =
     Inr (\<lparr>int2d = [[[1, 4, 2, 5, 3, 6, 7, 8, 9, 9]]], int1d = [[3]],
            u8_2d = [[[200, 10, 10, 200]], [[200, 10, 10, 150]]]\<rparr>,
          \<lparr>shapes = 0, points = 0, colors = 1\<rparr>) \<and>
   colors_of \<lparr>int2d = [[[1, 4, 2, 5, 3, 6, 7, 8, 9, 9]]], int1d = [[3]],
            u8_2d = [[[200, 10, 10, 200]], [[200, 10, 10, 150]]]\<rparr> first_refs =
     colors_of example_heap first_refs"
  using changes_copy_on_write[of example_heap first_refs example_config 0 "Alpha (- 50)"]
  by (simp add: changes_def alpha_def example_config_def example_heap_def first_refs_def heap_defs
      np_clip_def to_uint8_def)

text \<open>Claim C8 as stated fails: the draw \<open>(0, 0)\<close> of \<^verbatim>\<open>point\<close> is one \<^verbatim>\<open>randint\<close> can
  return, and with it the returned shapes array has the content of the one given, as the
  points and colors arrays have: none of the three containers differs.\<close>

theorem changes_same_content_counterexample:
  "valid_draw example_config example_heap first_refs 0 (Point (0, 0) 0) \<and>
   changes example_config example_heap first_refs 0 (Point (0, 0) 0) =
     Inr (\<lparr>int2d = [[[1, 4, 2, 5, 3, 6, 7, 8, 9, 9]], [[1, 4, 2, 5, 3, 6, 7, 8, 9, 9]]],
            int1d = [[3]], u8_2d = [[[200, 10, 10, 200]]]\<rparr>,
          \<lparr>shapes = 1, points = 0, colors = 0\<rparr>) \<and>
   shapes_of \<lparr>int2d = [[[1, 4, 2, 5, 3, 6, 7, 8, 9, 9]], [[1, 4, 2, 5, 3, 6, 7, 8, 9, 9]]],
            int1d = [[3]], u8_2d = [[[200, 10, 10, 200]]]\<rparr>
       \<lparr>shapes = 1, points = 0, colors = 0\<rparr> = shapes_of example_heap first_refs"
  by (simp add: changes_def valid_draw_def valid_offset_def point_def example_config_def
      example_heap_def first_refs_def heap_defs np_clip_def Let_def)

subsection \<open>Initialisation\<close>

lemma interleaved_row:
  assumes "length x = m" and "length y = m"
  defines "row \<equiv> set_slice2 (Suc 0) (2 * m) (set_slice2 0 (2 * m) (replicate (2 * m) 0) x) y"
  shows "length row = 2 * m" and "\<forall>j<m. pair_at row j = (x ! j, y ! j)"
proof -
  show "length row = 2 * m" by (simp add: row_def)
  show "\<forall>j<m. pair_at row j = (x ! j, y ! j)"
  proof (intro allI impI)
    fix j assume j: "j < m"
    have odd: "\<not> (Suc 0 \<le> 2 * j \<and> even (2 * j - Suc 0))" by (cases j) simp_all
    have "row ! (2 * j) = x ! j"
      using j odd by (simp add: row_def nth_set_slice2)
    moreover have "row ! Suc (2 * j) = y ! j"
      using j by (simp add: row_def nth_set_slice2)
    ultimately show "pair_at row j = (x ! j, y ! j)" by (simp add: pair_at_def)
  qed
qed




text \<open>Where the model of \<^verbatim>\<open>initialize\<close> returns: no negative dimension, a shapes array
  below the limit of \<open>2^63\<close> bytes and, unless there is no coordinate to draw, a width and a
  height in \<open>[1, 2^63]\<close>. (The memory of the machine is a further limit, which the model
  leaves out.)\<close>

lemma initialize_returns:
  assumes "0 \<le> n" and "0 \<le> mx" and "\<not> too_big n (mx * 2)"
    and "n * mx = 0 \<or> (1 \<le> w \<and> w \<le> 2 ^ 63 \<and> 1 \<le> hg \<and> hg \<le> 2 ^ 63)"
  shows "\<exists>h' r'. initialize n mn mx w hg h xs ys cs = Inr (h', r')"
  using assms by (auto simp: initialize_def Let_def)

subsection \<open>The scorer\<close>

lemma abs_diff_range: "0 \<le> abs_diff x y \<and> abs_diff x y \<le> 255"
proof -
  have "uint x < 2 ^ LENGTH(8)" "uint y < 2 ^ LENGTH(8)" by (rule uint_lt2p)+
  then have "uint x < 256" "uint y < 256" by simp_all
  then show ?thesis
    using uint_ge_0[of x] uint_ge_0[of y] unfolding abs_diff_def by linarith
qed

lemma pixel_sum_range:
  "0 \<le> (\<Sum>((r1, g1, b1), (r2, g2, b2)) \<leftarrow> ps. abs_diff r1 r2 + abs_diff g1 g2 + abs_diff b1 b2) \<and>
   (\<Sum>((r1, g1, b1), (r2, g2, b2)) \<leftarrow> ps. abs_diff r1 r2 + abs_diff g1 g2 + abs_diff b1 b2)
     \<le> 765 * int (length ps)"
proof (induction ps)
  case Nil
  show ?case by simp
next
  case (Cons p ps)
  obtain r1 g1 b1 r2 g2 b2 where p: "p = ((r1, g1, b1), (r2, g2, b2))"
    by (metis prod_cases3 surj_pair)
  show ?case
    using Cons abs_diff_range[of r1 r2] abs_diff_range[of g1 g2] abs_diff_range[of b1 b2]
    by (simp add: p)
qed

lemma error_abs_range:
  assumes "wf_raster a" and "shape0 b = shape0 a" and "shape1 b = shape1 a"
  shows "\<exists>e. error_abs a b = Inr e \<and> 0 \<le> e \<and> e \<le> int (shape0 a) * int (shape1 a) * 255 * 3"
proof -
  let ?ps = "zip (pixels a) (pixels b)"
  have "int (length ?ps) \<le> int (shape0 a) * int (shape1 a)"
    using assms(1) by (simp add: wf_raster_def flip: of_nat_mult)
  then have "765 * int (length ?ps) \<le> int (shape0 a) * int (shape1 a) * 255 * 3"
    by simp
  then show ?thesis
    using pixel_sum_range[of ?ps] assms(2,3) by (simp add: error_abs_def)
qed

lemma error_abs_nonneg: "error_abs a b = Inr e \<Longrightarrow> 0 \<le> e"
  using pixel_sum_range[of "zip (pixels a) (pixels b)"]
  by (auto simp: error_abs_def split: if_splits)

lemma percent_range:
  assumes fl: "rounding fl" and e: "0 \<le> e" "e \<le> n" and n: "0 < n"
  shows "0 \<le> fl (fl (fl (of_int e) / fl (of_int n)) * 100) \<and>
         fl (fl (fl (of_int e) / fl (of_int n)) * 100) \<le> 100"
proof -
  have mono: "\<And>x y. x \<le> y \<Longrightarrow> fl x \<le> fl y" and f0: "fl 0 = 0" and f1: "fl 1 = 1"
    and f100: "fl 100 = 100"
    using fl by (simp_all add: rounding_def mono_def)
  have a: "0 \<le> fl (of_int e)" using mono[of 0 "of_int e"] e(1) f0 by simp
  have b: "fl (of_int e) \<le> fl (of_int n)" using mono[of "of_int e" "of_int n"] e(2) by simp
  have c: "1 \<le> fl (of_int n)" using mono[of 1 "of_int n"] n f1 by simp
  have q0: "0 \<le> fl (of_int e) / fl (of_int n)" using a c by simp
  have q1: "fl (of_int e) / fl (of_int n) \<le> 1" using b c by simp
  have r0: "0 \<le> fl (fl (of_int e) / fl (of_int n))" using mono[OF q0] f0 by simp
  have r1: "fl (fl (of_int e) / fl (of_int n)) \<le> 1" using mono[OF q1] f1 by simp
  have "0 \<le> fl (fl (of_int e) / fl (of_int n)) * 100" using r0 by simp
  then have s0: "0 \<le> fl (fl (fl (of_int e) / fl (of_int n)) * 100)"
    using mono[of 0 "fl (fl (of_int e) / fl (of_int n)) * 100"] f0 by simp
  have "fl (fl (of_int e) / fl (of_int n)) * 100 \<le> 100" using r1 by simp
  then have s1: "fl (fl (fl (of_int e) / fl (of_int n)) * 100) \<le> 100"
    using mono[of "fl (fl (of_int e) / fl (of_int n)) * 100" 100] f100 by simp
  show ?thesis using s0 s1 by simp
qed

text \<open>Claim C7. For a reference raster of width \<open>w = shape1\<close> and height \<open>h = shape0\<close> with
  at least one pixel, \<^verbatim>\<open>error_percent(e, raster)\<close> is \<open>e / (w * h * 255 * 3) * 100\<close>: computed
  with the roundings \<open>fl\<close> of double precision, and exactly that real number when nothing
  is rounded. When \<open>e\<close> is the \<^verbatim>\<open>error_abs\<close> of the reference and a raster of its shape, the
  result lies in \<open>[0, 100]\<close>, for every rounding that is monotone and exact at 0, 1 and 100
  (as rounding to the nearest double is). Channel values are bytes, so they are in
  \<open>[0, 255]\<close>.\<close>

theorem error_percent_range:
  assumes "rounding fl" and "wf_raster a" and "0 < shape0 a" and "0 < shape1 a"
  shows "error_percent fl e a =
       Some (fl (fl (fl (of_int e) / fl (of_int (int (shape1 a) * int (shape0 a) * 255 * 3))) * 100)) \<and>
     error_percent (\<lambda>x. x) e a =
       Some (real_of_int e / (real (shape1 a) * real (shape0 a) * 255 * 3) * 100) \<and>
     (shape0 b = shape0 a \<and> shape1 b = shape1 a \<longrightarrow>
        (\<exists>e' v. error_abs a b = Inr e' \<and> error_percent fl e' a = Some v \<and> 0 \<le> v \<and> v \<le> 100))"
proof -
  let ?n = "int (shape0 a) * int (shape1 a) * 255 * 3"
  have n: "0 < ?n" using assms(3,4) by simp
  have comm: "int (shape1 a) * int (shape0 a) * 255 * 3 = ?n" by simp
  have f1: "error_percent fl e a = Some (fl (fl (fl (of_int e) / fl (of_int ?n)) * 100))"
    using assms(3,4) by (simp add: error_percent_def Let_def)
  have f2: "error_percent (\<lambda>x. x) e a =
       Some (real_of_int e / (real (shape1 a) * real (shape0 a) * 255 * 3) * 100)"
    using assms(3,4) by (simp add: error_percent_def Let_def mult.commute)
  have f3: "shape0 b = shape0 a \<and> shape1 b = shape1 a \<longrightarrow>
        (\<exists>e' v. error_abs a b = Inr e' \<and> error_percent fl e' a = Some v \<and> 0 \<le> v \<and> v \<le> 100)"
  proof
    assume sh: "shape0 b = shape0 a \<and> shape1 b = shape1 a"
    then obtain e' where e': "error_abs a b = Inr e'" "0 \<le> e'" "e' \<le> ?n"
      using error_abs_range[OF assms(2)] by blast
    have "error_percent fl e' a = Some (fl (fl (fl (of_int e') / fl (of_int ?n)) * 100))"
      using assms(3,4) by (simp add: error_percent_def Let_def)
    then show "\<exists>e' v. error_abs a b = Inr e' \<and> error_percent fl e' a = Some v \<and> 0 \<le> v \<and> v \<le> 100"
      using e'(1) percent_range[OF assms(1) e'(2,3) n] by blast
  qed
  show ?thesis using f1 f2 f3 unfolding comm by blast
qed


theorem error_percent_range_witness:
  "rounding (\<lambda>x. x) \<and>
   wf_raster \<lparr>shape0 = 1, shape1 = 2, pixels = [(255, 255, 255), (0, 0, 0)]\<rparr> \<and>
   error_abs \<lparr>shape0 = 1, shape1 = 2, pixels = [(255, 255, 255), (0, 0, 0)]\<rparr>
             \<lparr>shape0 = 1, shape1 = 2, pixels = [(0, 0, 0), (0, 0, 0)]\<rparr> = Inr 765 \<and>
   error_percent (\<lambda>x. x) 765 \<lparr>shape0 = 1, shape1 = 2, pixels = [(255, 255, 255), (0, 0, 0)]\<rparr>
     = Some 50"
  using error_percent_range[of "\<lambda>x. x"
      "\<lparr>shape0 = 1, shape1 = 2, pixels = [(255, 255, 255), (0, 0, 0)]\<rparr>" 765
      "\<lparr>shape0 = 1, shape1 = 2, pixels = [(0, 0, 0), (0, 0, 0)]\<rparr>"]
  by (simp add: rounding_def mono_def wf_raster_def error_abs_def abs_diff_def error_percent_def)

subsection \<open>The acceptance rule\<close>

lemma iterate_cases:
  "(case candidate lib cfg internal h (cur st) index d of
      Inl e \<Rightarrow> iterate lib cfg internal h st index d = Inl e
    | Inr (h', new) \<Rightarrow>
        iterate lib cfg internal h st index d = Inr (h', if score new \<le> score st then new else st))"
  by (simp add: iterate_def split: sum.splits)

lemma iterate_score_le:
  "iterate lib cfg internal h st index d = Inr (h', st') \<Longrightarrow> score st' \<le> score st"
  by (auto simp: iterate_def split: sum.splits if_splits)

lemma scores_Cons:
  "iterate lib cfg internal h st index d = Inr (h', st') \<Longrightarrow>
   scores lib cfg internal h st ((index, d) # ds) = score st # scores lib cfg internal h' st' ds"
  by (simp add: scores_def)

lemma scores_stop:
  "iterate lib cfg internal h st index d = Inl e \<Longrightarrow>
   scores lib cfg internal h st ((index, d) # ds) = [score st]"
  by (simp add: scores_def)

lemma scores_hd: "scores lib cfg internal h st ds ! 0 = score st"
  by (simp add: scores_def)

lemma scores_descend:
  "Suc k < length (scores lib cfg internal h st ds) \<Longrightarrow>
   scores lib cfg internal h st ds ! Suc k \<le> scores lib cfg internal h st ds ! k"
proof (induction ds arbitrary: h st k)
  case Nil
  then show ?case by (simp add: scores_def)
next
  case (Cons a ds)
  obtain index d where a: "a = (index, d)" by (cases a)
  show ?case
  proof (cases "iterate lib cfg internal h st index d")
    case (Inl e)
    then show ?thesis using Cons.prems by (simp add: a scores_stop)
  next
    case (Inr p)
    obtain h' st' where p: "p = (h', st')" by (cases p)
    have eq: "scores lib cfg internal h st (a # ds) = score st # scores lib cfg internal h' st' ds"
      using Inr by (simp add: a p scores_Cons)
    show ?thesis
    proof (cases k)
      case 0
      then show ?thesis
        using iterate_score_le[of lib cfg internal h st index d h' st'] Inr
        by (simp add: eq p scores_hd)
    next
      case (Suc k')
      then show ?thesis
        using Cons.IH[of k' h' st'] Cons.prems by (simp add: eq)
    qed
  qed
qed

lemma cow_keeps:
  assumes "copy_on_write h r index h' r'" and "valid_refs h r"
  shows "shapes_of h' r = shapes_of h r" and "points_of h' r = points_of h r"
    and "colors_of h' r = colors_of h r" and "valid_refs h' r"
proof -
  have t: "take (length (int2d h)) (int2d h') = int2d h" "take (length (int1d h)) (int1d h') = int1d h"
      "take (length (u8_2d h)) (u8_2d h') = u8_2d h"
    using assms(1) by (simp_all add: copy_on_write_def)
  have "length (take (length (int2d h)) (int2d h')) = length (int2d h)"
    by (simp only: t(1))
  then have l2: "length (int2d h) \<le> length (int2d h')" by simp
  have "length (take (length (int1d h)) (int1d h')) = length (int1d h)"
    by (simp only: t(2))
  then have l1: "length (int1d h) \<le> length (int1d h')" by simp
  have "length (take (length (u8_2d h)) (u8_2d h')) = length (u8_2d h)"
    by (simp only: t(3))
  then have l8: "length (u8_2d h) \<le> length (u8_2d h')" by simp
  have "int2d h ! shapes r = take (length (int2d h)) (int2d h') ! shapes r" by (simp only: t(1))
  then show "shapes_of h' r = shapes_of h r" using assms(2) by (simp add: heap_defs)
  have "int1d h ! points r = take (length (int1d h)) (int1d h') ! points r" by (simp only: t(2))
  then show "points_of h' r = points_of h r" using assms(2) by (simp add: heap_defs)
  have "u8_2d h ! colors r = take (length (u8_2d h)) (u8_2d h') ! colors r" by (simp only: t(3))
  then show "colors_of h' r = colors_of h r" using assms(2) by (simp add: heap_defs)
  show "valid_refs h' r" using assms(2) l2 l1 l8 by (auto simp: valid_refs_def)
qed

lemma iterate_keeps_arrays:
  assumes "valid_refs h (cur st)" and "iterate lib cfg internal h st index d = Inr (h', st')"
  shows "shapes_of h' (cur st) = shapes_of h (cur st) \<and> points_of h' (cur st) = points_of h (cur st) \<and>
     colors_of h' (cur st) = colors_of h (cur st) \<and> valid_refs h' (cur st')"
proof -
  obtain new where c: "candidate lib cfg internal h (cur st) index d = Inr (h', new)"
    and st': "st' = (if score new \<le> score st then new else st)"
    using assms(2) by (auto simp: iterate_def split: sum.splits if_splits)
  obtain r' where ch: "changes cfg h (cur st) index d = Inr (h', r')" and r': "cur new = r'"
    using c by (auto simp: candidate_def Let_def split: sum.splits)
  have cow: "copy_on_write h (cur st) index h' r'"
    using assms(1) ch by (rule changes_cow)
  have new_ok: "valid_refs h' (cur new)"
    using cow by (simp add: copy_on_write_def r')
  have "valid_refs h' (cur st')"
    using new_ok cow_keeps(4)[OF cow assms(1)] by (simp add: st')
  then show ?thesis
    using cow_keeps(1-3)[OF cow assms(1)] by simp
qed

text \<open>Claim C1. In every iteration, \<^verbatim>\<open>iterate\<close> returns the candidate (polygon set, raster,
  score) when the candidate's absolute error is less than or equal to the current score
  (ties accepted), and the current state otherwise; an exception of the mutation is passed
  on. The arrays of the current state keep their content in either case. Consequently, in
  every run the score after iteration \<open>k + 1\<close> is less than or equal to the score after
  iteration \<open>k\<close>.\<close>

theorem iterate_accepts_not_worse:
  "(case candidate lib cfg internal h (cur st) index d of
      Inl e \<Rightarrow> iterate lib cfg internal h st index d = Inl e
    | Inr (h', new) \<Rightarrow>
        iterate lib cfg internal h st index d = Inr (h', if score new \<le> score st then new else st)) \<and>
   (\<forall>h' st'. valid_refs h (cur st) \<and> iterate lib cfg internal h st index d = Inr (h', st') \<longrightarrow>
      shapes_of h' (cur st) = shapes_of h (cur st) \<and> points_of h' (cur st) = points_of h (cur st) \<and>
      colors_of h' (cur st) = colors_of h (cur st)) \<and>
   (\<forall>k. Suc k < length (scores lib cfg internal h st ds) \<longrightarrow>
      scores lib cfg internal h st ds ! Suc k \<le> scores lib cfg internal h st ds ! k)"
proof (intro conjI allI impI)
  show "case candidate lib cfg internal h (cur st) index d of
      Inl e \<Rightarrow> iterate lib cfg internal h st index d = Inl e
    | Inr (h', new) \<Rightarrow>
        iterate lib cfg internal h st index d = Inr (h', if score new \<le> score st then new else st)"
    by (rule iterate_cases)
next
  fix h' st'
  assume a: "valid_refs h (cur st) \<and> iterate lib cfg internal h st index d = Inr (h', st')"
  note keep = iterate_keeps_arrays[OF conjunct1[OF a] conjunct2[OF a]]
  show "shapes_of h' (cur st) = shapes_of h (cur st)" using keep by simp
  show "points_of h' (cur st) = points_of h (cur st)" using keep by simp
  show "colors_of h' (cur st) = colors_of h (cur st)" using keep by simp
next
  fix k
  assume "Suc k < length (scores lib cfg internal h st ds)"
  then show "scores lib cfg internal h st ds ! Suc k \<le> scores lib cfg internal h st ds ! k"
    by (rule scores_descend)
qed


text \<open>A run on the one-pixel canvas: the first colour change is accepted (765 to 465), the
  second is rejected (515 is worse than 465) and the alpha change is accepted (366).\<close>

lemma pixel_start:
  "generate_start box_lib pixel_config (new_image 1 1) empty_heap [[0, 0, 0]] [[0, 0, 0]] [[0, 0, 0, 255]]
     = Inr (pixel_heap, pixel_state)"
  by code_simp

lemma pixel_scores:
  "scores box_lib pixel_config (new_image 1 1) pixel_heap pixel_state pixel_draws = [765, 465, 465, 366]"
  by code_simp

theorem iterate_accepts_not_worse_witness:
  "generate_start box_lib pixel_config (new_image 1 1) empty_heap [[0, 0, 0]] [[0, 0, 0]] [[0, 0, 0, 255]]
     = Inr (pixel_heap, pixel_state) \<and>
   valid_refs pixel_heap (cur pixel_state) \<and>
   scores box_lib pixel_config (new_image 1 1) pixel_heap pixel_state pixel_draws = [765, 465, 465, 366] \<and>
   scores box_lib pixel_config (new_image 1 1) pixel_heap pixel_state pixel_draws ! Suc 1
     \<le> scores box_lib pixel_config (new_image 1 1) pixel_heap pixel_state pixel_draws ! 1"
proof -
  let ?s = "scores box_lib pixel_config (new_image 1 1) pixel_heap pixel_state pixel_draws"
  have v: "valid_refs pixel_heap (cur pixel_state)"
    by (simp add: valid_refs_def pixel_heap_def pixel_state_def first_refs_def)
  have "Suc 1 < length ?s"
    by (simp add: pixel_scores)
  then have "?s ! Suc 1 \<le> ?s ! 1"
    using iterate_accepts_not_worse[of box_lib pixel_config "new_image 1 1" pixel_heap pixel_state 0
      "Color (100, 100, 100)" pixel_draws]
    by blast
  then show ?thesis
    using v pixel_scores pixel_start by blast
qed

subsection \<open>The white triangle on a white target\<close>

lemma paint_white:
  assumes "keeps_white lib" and "\<forall>z\<in>set zs. white_row (snd (snd z))"
  shows "foldl (\<lambda>img (shp, pt, col). polygon lib (f pt shp) col img) (new_image w hg) zs
           = new_image w hg"
  using assms(2)
proof (induction zs rule: rev_induct)
  case Nil
  show ?case by simp
next
  case (snoc z zs)
  obtain shp pt col where z: "z = (shp, pt, col)" by (cases z) auto
  obtain a where col: "col = [255, 255, 255, a]"
    using snoc.prems by (auto simp: z white_row_def)
  have "polygon lib (f pt shp) [255, 255, 255, a] (new_image w hg) = new_image w hg"
    using assms(1) by (simp add: keeps_white_def)
  then show ?case
    using snoc by (simp add: z col)
qed

lemma draw_white:
  assumes "keeps_white lib" and "list_all white_row cols"
  shows "draw_image lib w hg shps pts cols False = new_image w hg"
proof -
  have "\<forall>z\<in>set (zip shps (zip pts cols)). white_row (snd (snd z))"
    using assms(2) by (auto simp: list_all_iff dest!: set_zip_rightD)
  then show ?thesis
    using paint_white[OF assms(1), of "zip shps (zip pts cols)" "\<lambda>pt shp. map (\<lambda>v. v * 1) (py_take (pt * 2) shp)" w hg]
    by (simp add: draw_image_def)
qed

lemma error_abs_white: "error_abs (new_image w hg) (new_image w hg) = Inr 0"
  by (simp add: error_abs_def new_image_def zip_replicate abs_diff_def sum_list_replicate)

lemma candidate_score_nonneg:
  assumes "candidate lib cfg internal h r index d = Inr (h', new)"
  shows "0 \<le> score new"
proof -
  obtain img s where "error_abs internal img = Inr s" and "score new = s"
    using assms by (auto simp: candidate_def Let_def split: sum.splits)
  then show ?thesis
    using error_abs_nonneg[of internal img s] by simp
qed

lemma iterate_score_nonneg:
  assumes "0 \<le> score st" and "iterate lib cfg internal h st index d = Inr (h', st')"
  shows "0 \<le> score st'"
proof -
  obtain new where c: "candidate lib cfg internal h (cur st) index d = Inr (h', new)"
    and st': "st' = (if score new \<le> score st then new else st)"
    using assms(2) by (auto simp: iterate_def split: sum.splits if_splits)
  show ?thesis
    using candidate_score_nonneg[OF c] assms(1) by (simp add: st')
qed

lemma scores_between:
  "0 \<le> score st \<Longrightarrow>
   list_all (\<lambda>s. 0 \<le> s \<and> s \<le> score st) (scores lib cfg internal h st ds)"
proof (induction ds arbitrary: h st)
  case Nil
  then show ?case by (simp add: scores_def)
next
  case (Cons a ds)
  obtain index d where a: "a = (index, d)" by (cases a)
  show ?case
  proof (cases "iterate lib cfg internal h st index d")
    case (Inl e)
    then show ?thesis using Cons.prems by (simp add: a scores_stop)
  next
    case (Inr p)
    obtain h' st' where p: "p = (h', st')" by (cases p)
    have it: "iterate lib cfg internal h st index d = Inr (h', st')" using Inr p by simp
    have le: "score st' \<le> score st" using it by (rule iterate_score_le)
    have ge: "0 \<le> score st'" using Cons.prems it by (rule iterate_score_nonneg)
    have "list_all (\<lambda>s. 0 \<le> s \<and> s \<le> score st') (scores lib cfg internal h' st' ds)"
      using ge by (rule Cons.IH)
    then have "list_all (\<lambda>s. 0 \<le> s \<and> s \<le> score st) (scores lib cfg internal h' st' ds)"
      using le by (auto simp: list_all_iff)
    then show ?thesis
      using Cons.prems by (simp add: a scores_Cons[OF it])
  qed
qed

lemma accept_at_zero:
  assumes "score st = 0" and "candidate lib cfg internal h (cur st) index d = Inr (h', new)"
  shows "iterate lib cfg internal h st index d = Inr (h', if score new = 0 then new else st)"
  using assms candidate_score_nonneg[OF assms(2)] by (auto simp: iterate_def)


lemma over_white: "over a 255 255 = 255"
proof -
  have "255 * uint a + 255 * (255 - uint a) = 255 * 255" by simp
  then have "(255 * uint a + 255 * (255 - uint a)) div 255 = 255" by simp
  then show ?thesis by (simp add: over_def to_uint8_def)
qed

lemma keeps_white_box_lib: "keeps_white box_lib"
proof -
  have "box_polygon xy [255, 255, 255, a] (new_image w hg) = new_image w hg" for xy a w hg
  proof -
    let ?n = "nat hg * nat w"
    let ?f = "\<lambda>(i, (r, g, b)).
              if length [255, 255, 255, a] = 4 \<and>
                 in_box xy (int (i mod shape1 (new_image w hg))) (int (i div shape1 (new_image w hg)))
              then (over ([255, 255, 255, a] ! 3) r ([255, 255, 255, a] ! 0),
                    over ([255, 255, 255, a] ! 3) g ([255, 255, 255, a] ! 1),
                    over ([255, 255, 255, a] ! 3) b ([255, 255, 255, a] ! 2))
              else (r, g, b)"
    have "map ?f (enumerate 0 (replicate ?n (255, 255, 255))) = replicate ?n (255, 255, 255)"
      by (rule nth_equalityI) (simp_all add: nth_enumerate_eq over_white)
    then show ?thesis
      by (simp add: box_polygon_def new_image_def)
  qed
  then show ?thesis
    by (simp add: keeps_white_def box_lib_def)
qed

text \<open>Claim C9, amended. In the scenario (one polygon, \<open>min_points = max_points = 3\<close>, a
  10 by 10 all-white target, the polygon white with alpha 255, any coordinates) and for
  every library that paints white on white as white: the initial \<^verbatim>\<open>error_abs\<close> is 0; after
  every iteration of every run, of 1,000 iterations or of any other number, the score is
  0; and a proposal is accepted exactly when its own score is 0 (a tie), and rejected when
  its score is positive.\<close>

theorem white_triangle_scores:
  assumes "keeps_white lib"
  shows "\<exists>h0 st0.
     generate_start lib triangle_config (new_image 10 10) empty_heap xs ys [[255, 255, 255, 255]]
       = Inr (h0, st0) \<and>
     score st0 = 0 \<and>
     (\<forall>ds. list_all (\<lambda>s. s = 0) (scores lib triangle_config (new_image 10 10) h0 st0 ds)) \<and>
     (\<forall>h st index d h' new.
        score st = 0 \<and>
        candidate lib triangle_config (new_image 10 10) h (cur st) index d = Inr (h', new) \<longrightarrow>
        iterate lib triangle_config (new_image 10 10) h st index d =
          Inr (h', if score new = 0 then new else st))"
proof -
  obtain h0 r0 where init: "initialize 1 3 3 10 10 empty_heap xs ys [[255, 255, 255, 255]] = Inr (h0, r0)"
    and cols: "colors_of h0 r0 = [[255, 255, 255, 255]]"
    by (simp add: initialize_def too_big_def Let_def empty_heap_def heap_defs)
  define st0 where "st0 = \<lparr>cur = r0, cur_image = new_image 10 10, score = 0\<rparr>"
  have white: "list_all white_row (colors_of h0 r0)"
    by (simp add: cols white_row_def)
  have img: "draw_image lib 10 10 (shapes_of h0 r0) (points_of h0 r0) (colors_of h0 r0) False
      = new_image 10 10"
    using assms white by (rule draw_white)
  have start: "generate_start lib triangle_config (new_image 10 10) empty_heap xs ys
      [[255, 255, 255, 255]] = Inr (h0, st0)"
    using init by (simp add: generate_start_def triangle_config_def img error_abs_white st0_def)
  have zero: "list_all (\<lambda>s. s = 0) (scores lib triangle_config (new_image 10 10) h0 st0 ds)" for ds
    using scores_between[of st0 lib triangle_config "new_image 10 10" h0 ds]
    by (fastforce simp: st0_def list_all_iff)
  show ?thesis
    using start zero accept_at_zero by (intro exI[of _ h0] exI[of _ st0]) (simp add: st0_def)
qed

lemma white_start:
  "generate_start box_lib triangle_config (new_image 10 10) empty_heap [[1, 2, 3]] [[4, 5, 6]]
      [[255, 255, 255, 255]] = Inr (triangle_heap, white_state)"
proof -
  have init: "initialize 1 3 3 10 10 empty_heap [[1, 2, 3]] [[4, 5, 6]] [[255, 255, 255, 255]]
      = Inr (triangle_heap, first_refs)"
    by (simp add: initialize_def too_big_def empty_heap_def set_slice2_def upt_conv_Cons
        triangle_heap_def first_refs_def)
  have "list_all white_row (colors_of triangle_heap first_refs)"
    by (simp add: triangle_heap_def first_refs_def heap_defs white_row_def)
  then have "draw_image box_lib 10 10 (shapes_of triangle_heap first_refs)
      (points_of triangle_heap first_refs) (colors_of triangle_heap first_refs) False = new_image 10 10"
    using keeps_white_box_lib draw_white by blast
  then show ?thesis
    using init by (simp add: generate_start_def triangle_config_def error_abs_white white_state_def)
qed

lemma white_alpha_accepted:
  "iterate box_lib triangle_config (new_image 10 10) triangle_heap white_state 0 (Alpha (- 10)) =
     Inr (\<lparr>int2d = [[[1, 4, 2, 5, 3, 6]]], int1d = [[3]],
            u8_2d = [[[255, 255, 255, 255]], [[255, 255, 255, 245]]]\<rparr>,
          \<lparr>cur = \<lparr>shapes = 0, points = 0, colors = 1\<rparr>, cur_image = new_image 10 10, score = 0\<rparr>)"
proof -
  let ?h1 = "\<lparr>int2d = [[[1, 4, 2, 5, 3, 6]]], int1d = [[3]],
            u8_2d = [[[255, 255, 255, 255]], [[255, 255, 255, 245]]]\<rparr>"
  let ?r1 = "\<lparr>shapes = 0, points = 0, colors = 1\<rparr>"
  have ch: "changes triangle_config triangle_heap first_refs 0 (Alpha (- 10)) = Inr (?h1, ?r1)"
    by (simp add: changes_def alpha_def triangle_heap_def first_refs_def heap_defs np_clip_def
        to_uint8_def)
  have wh: "width triangle_config = 10" "height triangle_config = 10"
    by (simp_all add: triangle_config_def)
  have "list_all white_row (colors_of ?h1 ?r1)"
    by (simp add: heap_defs white_row_def)
  then have img: "draw_image box_lib 10 10 (shapes_of ?h1 ?r1) (points_of ?h1 ?r1) (colors_of ?h1 ?r1)
      False = new_image 10 10"
    using keeps_white_box_lib draw_white by blast
  have "candidate box_lib triangle_config (new_image 10 10) triangle_heap first_refs 0 (Alpha (- 10))
      = Inr (?h1, \<lparr>cur = ?r1, cur_image = new_image 10 10, score = 0\<rparr>)"
    by (simp only: candidate_def ch sum.case prod.case Let_def wh img error_abs_white)
  then show ?thesis
    by (simp add: iterate_def white_state_def first_refs_def)
qed

theorem white_triangle_scores_witness:
  "keeps_white box_lib \<and>
   generate_start box_lib triangle_config (new_image 10 10) empty_heap [[1, 2, 3]] [[4, 5, 6]]
      [[255, 255, 255, 255]] = Inr (triangle_heap, white_state) \<and>
   score white_state = 0 \<and>
   list_all (\<lambda>s. s = 0)
     (scores box_lib triangle_config (new_image 10 10) triangle_heap white_state
        [(0, Alpha (- 10)), (0, Color (1, 0, 0)), (0, Number 1)])"
  using white_triangle_scores[OF keeps_white_box_lib, of "[[1, 2, 3]]" "[[4, 5, 6]]"]
    keeps_white_box_lib white_start
  by (auto simp: white_state_def)

text \<open>Claim C9 as stated fails: the first iteration of a run can draw the alpha change -10,
  the proposal (the white polygon with alpha 245) renders all white, its score 0 ties with
  the current score 0, and \<^verbatim>\<open>iterate\<close> accepts it: the colors array of the state is a new
  one.\<close>

theorem white_alpha_accepted_counterexample:
  "generate_start box_lib triangle_config (new_image 10 10) empty_heap [[1, 2, 3]] [[4, 5, 6]]
      [[255, 255, 255, 255]] = Inr (triangle_heap, white_state) \<and>
   valid_draw triangle_config triangle_heap first_refs 0 (Alpha (- 10)) \<and>
   colors_of triangle_heap (cur white_state) = [[255, 255, 255, 255]] \<and>
   iterate box_lib triangle_config (new_image 10 10) triangle_heap white_state 0 (Alpha (- 10)) =
     Inr (\<lparr>int2d = [[[1, 4, 2, 5, 3, 6]]], int1d = [[3]],
            u8_2d = [[[255, 255, 255, 255]], [[255, 255, 255, 245]]]\<rparr>,
          \<lparr>cur = \<lparr>shapes = 0, points = 0, colors = 1\<rparr>, cur_image = new_image 10 10, score = 0\<rparr>)"
  using white_start white_alpha_accepted
  by (simp add: valid_draw_def triangle_config_def triangle_heap_def white_state_def first_refs_def
      heap_defs)

subsection \<open>The bounds where the side count has room to move\<close>

lemma byte_range: "0 \<le> uint (v::uint8) \<and> uint v \<le> 255"
proof -
  have "uint v < 2 ^ LENGTH(8)" by (rule uint_lt2p)
  then show ?thesis by simp
qed

text \<open>What \<^verbatim>\<open>color\<close> and \<^verbatim>\<open>alpha\<close> store for a channel \<open>v\<close> and an offset \<open>d\<close>: every sum
  above 255 is stored as 0.\<close>

lemma stored_channel:
  "to_uint8 (np_clip (uint v + d) 0 256) =
     (if 256 \<le> uint v + d then 0 else if uint v + d \<le> 0 then 0 else to_uint8 (uint v + d))"
  by (simp add: np_clip_def to_uint8_def)

lemma length_tile2 [simp]: "length (tile [a, b] n) = 2 * n"
  by (induction n) (simp_all add: tile_def)

lemma nth_tile2:
  "j < n \<Longrightarrow> tile [a, b] n ! (2 * j) = a \<and> tile [a, b] n ! Suc (2 * j) = b"
proof (induction n arbitrary: j)
  case 0
  then show ?case by simp
next
  case (Suc n)
  have t: "tile [a, b] (Suc n) = a # b # tile [a, b] n" by (simp add: tile_def)
  show ?case
  proof (cases j)
    case 0
    then show ?thesis by (simp add: t)
  next
    case (Suc j')
    then show ?thesis using Suc.IH[of j'] Suc.prems by (simp add: t)
  qed
qed

text \<open>Where \<open>0 \<le> min_points < max_points\<close>, the bounds of the data model hold after
  \<^verbatim>\<open>initialize\<close> and are kept by every operator and every iteration. They are not kept
  where \<open>min_points = max_points\<close>, as the evaluation of \<^verbatim>\<open>number\<close> above shows.\<close>

lemma in_bounds_new_shapes:
  assumes "in_bounds cfg h r" and "index < length (shapes_of h r)"
    and "length row' = 2 * nat (max_points cfg)"
    and "\<forall>j<nat (max_points cfg). pair_in_canvas cfg row' j"
  shows "in_bounds cfg (h\<lparr>int2d := int2d h @ [(shapes_of h r)[index := row']]\<rparr>)
           (r\<lparr>shapes := length (int2d h)\<rparr>)"
  using assms
  by (auto simp: in_bounds_def heap_defs nth_append list_all_length nth_list_update)

lemma in_bounds_new_points:
  assumes "in_bounds cfg h r" and "index < length (points_of h r)"
    and "min_points cfg \<le> p'" and "p' \<le> max_points cfg"
  shows "in_bounds cfg (h\<lparr>int1d := int1d h @ [(points_of h r)[index := p']]\<rparr>)
           (r\<lparr>points := length (int1d h)\<rparr>)"
  using assms
  by (auto simp: in_bounds_def heap_defs nth_append list_all_length nth_list_update)

lemma in_bounds_new_colors:
  assumes "in_bounds cfg h r" and "index < length (colors_of h r)"
    and "length c' = 4"
  shows "in_bounds cfg (h\<lparr>u8_2d := u8_2d h @ [(colors_of h r)[index := c']]\<rparr>)
           (r\<lparr>colors := length (u8_2d h)\<rparr>)"
  using assms byte_range
  by (auto simp: in_bounds_def heap_defs nth_append list_all_length nth_list_update)


lemma in_bounds_row:
  assumes "in_bounds cfg h r" and "index < length (shapes_of h r)"
  shows "length (shapes_of h r ! index) = 2 * nat (max_points cfg)"
    and "\<forall>j<nat (max_points cfg). pair_in_canvas cfg (shapes_of h r ! index) j"
  using assms by (auto simp: in_bounds_def list_all_length)

lemma point_in_bounds:
  assumes inv: "in_bounds cfg h r" and w: "0 \<le> width cfg" "0 \<le> height cfg"
    and run: "point cfg h r index change choice = Inr (h', r')"
  shows "in_bounds cfg h' r'"
proof -
  let ?row = "shapes_of h r ! index"
  have v: "valid_refs h r" using inv by (simp add: in_bounds_def)
  have idx: "index < length (shapes_of h r)" and len: "choice * 2 + 2 \<le> length ?row"
    using run v by (auto simp: point_def heap_defs Let_def nth_append split: if_splits)
  define row' where "row' = ?row[choice * 2 := np_clip (?row ! (choice * 2) + fst change) 0 (width cfg),
      choice * 2 + 1 := np_clip (?row ! (choice * 2 + 1) + snd change) 0 (height cfg)]"
  have res: "h' = h\<lparr>int2d := int2d h @ [(shapes_of h r)[index := row']]\<rparr>"
      "r' = r\<lparr>shapes := length (int2d h)\<rparr>"
    using run v idx len by (auto simp: point_def heap_defs Let_def nth_append row'_def)
  note row = in_bounds_row[OF inv idx]
  have l: "length row' = 2 * nat (max_points cfg)" using row(1) by (simp add: row'_def)
  have p: "\<forall>j<nat (max_points cfg). pair_in_canvas cfg row' j"
  proof (intro allI impI)
    fix j assume j: "j < nat (max_points cfg)"
    show "pair_in_canvas cfg row' j"
    proof (cases "j = choice")
      case True
      then show ?thesis
        using len w np_clip_range[of "width cfg"] np_clip_range[of "height cfg"]
        by (simp add: pair_in_canvas_def pair_at_def row'_def mult.commute)
    next
      case False
      then have "pair_at row' j = pair_at ?row j"
        by (auto simp: pair_at_def row'_def mult.commute)
      then show ?thesis using row(2) j by (simp add: pair_in_canvas_def)
    qed
  qed
  show ?thesis
    unfolding res by (rule in_bounds_new_shapes[OF inv idx l p])
qed

lemma shape_in_bounds:
  assumes inv: "in_bounds cfg h r" and w: "0 \<le> width cfg" "0 \<le> height cfg"
    and run: "shape cfg h r index change = Inr (h', r')"
  shows "in_bounds cfg h' r'"
proof -
  let ?row = "shapes_of h r ! index"
  let ?m = "nat (max_points cfg)"
  let ?chg = "tile [fst change, snd change] ?m"
  let ?bnd = "tile [width cfg, height cfg] ?m"
  have v: "valid_refs h r" using inv by (simp add: in_bounds_def)
  have idx: "index < length (shapes_of h r)"
    using run v by (auto simp: shape_def heap_defs Let_def nth_append split: if_splits)
  note row = in_bounds_row[OF inv idx]
  define row' where "row' = map2 (\<lambda>(v, c) b. np_clip (v + c) 0 b) (zip ?row ?chg) ?bnd"
  have res: "h' = h\<lparr>int2d := int2d h @ [(shapes_of h r)[index := row']]\<rparr>"
      "r' = r\<lparr>shapes := length (int2d h)\<rparr>"
    using run v idx row(1) by (auto simp: shape_def heap_defs Let_def nth_append row'_def)
  have l: "length row' = 2 * ?m" using row(1) by (simp add: row'_def)
  have nth: "\<And>k. k < 2 * ?m \<Longrightarrow> row' ! k = np_clip (?row ! k + ?chg ! k) 0 (?bnd ! k)"
    using row(1) by (simp add: row'_def)
  have p: "\<forall>j<?m. pair_in_canvas cfg row' j"
  proof (intro allI impI)
    fix j assume j: "j < ?m"
    have "row' ! (2 * j) = np_clip (?row ! (2 * j) + ?chg ! (2 * j)) 0 (width cfg)"
      using nth[of "2 * j"] j nth_tile2[OF j, of "width cfg" "height cfg"] by simp
    moreover have "row' ! Suc (2 * j) = np_clip (?row ! Suc (2 * j) + ?chg ! Suc (2 * j)) 0 (height cfg)"
      using nth[of "Suc (2 * j)"] j nth_tile2[OF j, of "width cfg" "height cfg"] by simp
    ultimately show "pair_in_canvas cfg row' j"
      using w np_clip_range[of "width cfg"] np_clip_range[of "height cfg"]
      by (simp add: pair_in_canvas_def pair_at_def)
  qed
  show ?thesis
    unfolding res by (rule in_bounds_new_shapes[OF inv idx l p])
qed

lemma number_in_bounds:
  assumes inv: "in_bounds cfg h r" and lt: "min_points cfg < max_points cfg"
    and step: "step = 1 \<or> step = - 1"
    and run: "number cfg h r index step = Inr (h', r')"
  shows "in_bounds cfg h' r'"
proof -
  let ?p = "points_of h r ! index"
  have v: "valid_refs h r" using inv by (simp add: in_bounds_def)
  have idx: "index < length (points_of h r)"
    using run v by (auto simp: number_def heap_defs Let_def nth_append split: if_splits)
  define p' where "p' = (if ?p = min_points cfg then ?p + 1
                      else if ?p = max_points cfg then ?p - 1 else ?p + step)"
  have res: "h' = h\<lparr>int1d := int1d h @ [(points_of h r)[index := p']]\<rparr>"
      "r' = r\<lparr>points := length (int1d h)\<rparr>"
    using run v idx by (auto simp: number_def heap_defs Let_def nth_append p'_def)
  have "min_points cfg \<le> ?p \<and> ?p \<le> max_points cfg"
    using inv idx by (simp add: in_bounds_def list_all_length)
  then have b: "min_points cfg \<le> p'" "p' \<le> max_points cfg"
    using lt step by (auto simp: p'_def)
  show ?thesis
    unfolding res by (rule in_bounds_new_points[OF inv idx b])
qed

lemma color_in_bounds:
  assumes inv: "in_bounds cfg h r" and run: "color cfg h r index change = Inr (h', r')"
  shows "in_bounds cfg h' r'"
proof -
  let ?row = "colors_of h r ! index"
  have v: "valid_refs h r" using inv by (simp add: in_bounds_def)
  have idx: "index < length (colors_of h r)"
    using run v by (auto simp: color_def heap_defs Let_def nth_append split: if_splits)
  have l4: "length ?row = 4" using inv idx by (simp add: in_bounds_def list_all_length)
  define c' where "c' = ?row[0 := to_uint8 (np_clip (uint (?row ! 0) + fst change) 0 256),
      1 := to_uint8 (np_clip (uint (?row ! 1) + fst (snd change)) 0 256),
      2 := to_uint8 (np_clip (uint (?row ! 2) + snd (snd change)) 0 256)]"
  have res: "h' = h\<lparr>u8_2d := u8_2d h @ [(colors_of h r)[index := c']]\<rparr>"
      "r' = r\<lparr>colors := length (u8_2d h)\<rparr>"
    using run v idx l4 by (auto simp: color_def heap_defs Let_def nth_append c'_def)
  have l: "length c' = 4" using l4 by (simp add: c'_def)
  show ?thesis
    unfolding res by (rule in_bounds_new_colors[OF inv idx l])
qed

lemma alpha_in_bounds:
  assumes inv: "in_bounds cfg h r" and run: "alpha cfg h r index change = Inr (h', r')"
  shows "in_bounds cfg h' r'"
proof -
  let ?row = "colors_of h r ! index"
  have v: "valid_refs h r" using inv by (simp add: in_bounds_def)
  have idx: "index < length (colors_of h r)"
    using run v by (auto simp: alpha_def heap_defs Let_def nth_append split: if_splits)
  have l4: "length ?row = 4" using inv idx by (simp add: in_bounds_def list_all_length)
  define c' where "c' = ?row[3 := to_uint8 (np_clip (uint (?row ! 3) + change) 0 256)]"
  have res: "h' = h\<lparr>u8_2d := u8_2d h @ [(colors_of h r)[index := c']]\<rparr>"
      "r' = r\<lparr>colors := length (u8_2d h)\<rparr>"
    using run v idx l4 by (auto simp: alpha_def heap_defs Let_def nth_append c'_def)
  have l: "length c' = 4" using l4 by (simp add: c'_def)
  show ?thesis
    unfolding res by (rule in_bounds_new_colors[OF inv idx l])
qed


lemma order_result:
  assumes "valid_refs h r" and "index < length (shapes_of h r)"
    and "index < length (points_of h r)"
    and "0 \<le> points_of h r ! index"
    and "2 * nat (points_of h r ! index) \<le> length (shapes_of h r ! index)"
    and "mset shuffle = mset [0..<nat (points_of h r ! index)]"
  shows "\<exists>row2. order cfg h r index shuffle =
       Inr (h\<lparr>int2d := int2d h @ [(shapes_of h r)[index := row2]]\<rparr>, r\<lparr>shapes := length (int2d h)\<rparr>) \<and>
     length row2 = length (shapes_of h r ! index) \<and>
     (\<forall>j<nat (points_of h r ! index). pair_at row2 j = pair_at (shapes_of h r ! index) (shuffle ! j)) \<and>
     drop (2 * nat (points_of h r ! index)) row2 =
       drop (2 * nat (points_of h r ! index)) (shapes_of h r ! index)"
proof -
  let ?arr = "shapes_of h r"
  let ?row = "?arr ! index"
  define p where "p = nat (points_of h r ! index)"
  define xs where "xs = get_slice2 0 (2 * p) ?row"
  define row1 where "row1 = set_slice2 0 (2 * p) ?row (map (\<lambda>i. xs ! i) shuffle)"
  define ys where "ys = get_slice2 (Suc 0) (2 * p) row1"
  define row2 where "row2 = set_slice2 (Suc 0) (2 * p) row1 (map (\<lambda>i. ys ! i) shuffle)"
  have len: "2 * p \<le> length ?row" and perm: "mset shuffle = mset [0..<p]"
    using assms(5,6) by (simp_all add: p_def)
  have ls: "length shuffle = p" and all: "list_all (\<lambda>i. i < p) shuffle"
    using perm_range[OF perm] by simp_all
  have lxs: "length xs = p" using len by (simp add: xs_def length_get_slice2_0)
  have lys: "length ys = p" using len by (simp add: ys_def row1_def length_get_slice2_1)
  have stop: "py_stop (points_of h r ! index * 2) (length ?row) = 2 * p"
    using assms(4) by (simp add: p_def py_stop_nonneg)
  have a0: "assign_slice2 0 (2 * p) ?row (map (\<lambda>i. xs ! i) shuffle) = Inr row1"
    using len ls by (simp add: assign_slice2_0 row1_def)
  have a1: "assign_slice2 (Suc 0) (2 * p) row1 (map (\<lambda>i. ys ! i) shuffle) = Inr row2"
    using len ls by (simp add: assign_slice2_1 row2_def row1_def)
  have run: "order cfg h r index shuffle =
       Inr (h\<lparr>int2d := int2d h @ [?arr[index := row2]]\<rparr>, r\<lparr>shapes := length (int2d h)\<rparr>)"
    using assms(1-4) stop ls all lxs lys a0 a1
    unfolding order_def xs_def ys_def
    by (simp add: heap_defs Let_def nth_append)
  have facts: "length row2 = length ?row" "\<forall>j<p. pair_at row2 j = pair_at ?row (shuffle ! j)"
      "drop (2 * p) row2 = drop (2 * p) ?row"
    using order_row[OF len perm] by (simp_all add: row2_def ys_def row1_def xs_def)
  show ?thesis
    using run facts unfolding p_def by blast
qed

lemma order_in_bounds:
  assumes inv: "in_bounds cfg h r" and mn: "0 \<le> min_points cfg"
    and idx: "index < nat (n_shapes cfg)"
    and perm: "mset shuffle = mset [0..<nat (points_of h r ! index)]"
    and run: "order cfg h r index shuffle = Inr (h', r')"
  shows "in_bounds cfg h' r'"
proof -
  let ?row = "shapes_of h r ! index"
  let ?m = "nat (max_points cfg)"
  define p where "p = nat (points_of h r ! index)"
  have v: "valid_refs h r" using inv by (simp add: in_bounds_def)
  have i1: "index < length (shapes_of h r)" and i2: "index < length (points_of h r)"
    using inv idx by (simp_all add: in_bounds_def)
  note row = in_bounds_row[OF inv i1]
  have pb: "min_points cfg \<le> points_of h r ! index \<and> points_of h r ! index \<le> max_points cfg"
    using inv i2 by (simp add: in_bounds_def list_all_length)
  then have p0: "0 \<le> points_of h r ! index" and pm: "p \<le> ?m"
    using mn unfolding p_def by linarith+
  have len: "2 * nat (points_of h r ! index) \<le> length ?row"
    using pm row(1) by (simp add: p_def)
  obtain row2 where res: "order cfg h r index shuffle =
       Inr (h\<lparr>int2d := int2d h @ [(shapes_of h r)[index := row2]]\<rparr>, r\<lparr>shapes := length (int2d h)\<rparr>)"
    and l2: "length row2 = length ?row"
    and act: "\<forall>j<p. pair_at row2 j = pair_at ?row (shuffle ! j)"
    and inert: "drop (2 * p) row2 = drop (2 * p) ?row"
    using order_result[OF v i1 i2 p0 len perm, of cfg] unfolding p_def by blast
  have eq: "h' = h\<lparr>int2d := int2d h @ [(shapes_of h r)[index := row2]]\<rparr>"
      "r' = r\<lparr>shapes := length (int2d h)\<rparr>"
    using run res by simp_all
  have sh: "\<And>j. j < p \<Longrightarrow> shuffle ! j < p"
    using perm_range[of shuffle p] perm by (simp add: p_def list_all_length)
  have l: "length row2 = 2 * ?m" using l2 row(1) by simp
  have pc: "\<forall>j<?m. pair_in_canvas cfg row2 j"
  proof (intro allI impI)
    fix j assume j: "j < ?m"
    show "pair_in_canvas cfg row2 j"
    proof (cases "j < p")
      case True
      then have "pair_at row2 j = pair_at ?row (shuffle ! j)" using act by blast
      moreover have "shuffle ! j < ?m" using sh[OF True] pm by simp
      ultimately show ?thesis using row(2) by (simp add: pair_in_canvas_def)
    next
      case False
      have k0: "2 * p \<le> 2 * j" "2 * j < length row2" "Suc (2 * j) < length row2"
        using False j l by simp_all
      have "row2 ! (2 * j) = drop (2 * p) row2 ! (2 * j - 2 * p)" using k0 by simp
      also have "\<dots> = drop (2 * p) ?row ! (2 * j - 2 * p)" by (simp only: inert)
      also have "\<dots> = ?row ! (2 * j)" using k0 l2 by simp
      finally have e: "row2 ! (2 * j) = ?row ! (2 * j)" .
      have "row2 ! Suc (2 * j) = drop (2 * p) row2 ! (Suc (2 * j) - 2 * p)" using k0 by simp
      also have "\<dots> = drop (2 * p) ?row ! (Suc (2 * j) - 2 * p)" by (simp only: inert)
      also have "\<dots> = ?row ! Suc (2 * j)" using k0 l2 by simp
      finally have o: "row2 ! Suc (2 * j) = ?row ! Suc (2 * j)" .
      have "pair_at row2 j = pair_at ?row j" using e o by (simp add: pair_at_def)
      then show ?thesis using row(2) j by (simp add: pair_in_canvas_def)
    qed
  qed
  show ?thesis
    unfolding eq by (rule in_bounds_new_shapes[OF inv i1 l pc])
qed

lemma changes_in_bounds:
  assumes "in_bounds cfg h r" and "0 \<le> min_points cfg" and "min_points cfg < max_points cfg"
    and "0 \<le> width cfg" and "0 \<le> height cfg"
    and "valid_draw cfg h r index d" and "changes cfg h r index d = Inr (h', r')"
  shows "in_bounds cfg h' r'"
proof (cases d)
  case (Point change choice)
  then show ?thesis using assms point_in_bounds by (simp add: changes_def)
next
  case (Shape change)
  then show ?thesis using assms shape_in_bounds by (simp add: changes_def)
next
  case (Order shuffle)
  have "int index < n_shapes cfg" using assms(6) by (simp add: valid_draw_def)
  then have "index < nat (n_shapes cfg)" by linarith
  then show ?thesis
    using Order assms order_in_bounds[of cfg h r index shuffle h' r']
    by (simp add: changes_def valid_draw_def)
next
  case (Number step)
  then show ?thesis
    using assms number_in_bounds[of cfg h r step index h' r']
    by (simp add: changes_def valid_draw_def)
next
  case (Color change)
  then show ?thesis using assms color_in_bounds by (simp add: changes_def)
next
  case (Alpha change)
  then show ?thesis using assms alpha_in_bounds by (simp add: changes_def)
qed


lemma in_bounds_kept:
  assumes "in_bounds cfg h r" and "copy_on_write h r index h' r'"
  shows "in_bounds cfg h' r"
  using assms(1) cow_keeps[OF assms(2)] by (simp add: in_bounds_def)

lemma iterate_in_bounds:
  assumes "in_bounds cfg h (cur st)" and "0 \<le> min_points cfg" and "min_points cfg < max_points cfg"
    and "0 \<le> width cfg" and "0 \<le> height cfg"
    and "valid_draw cfg h (cur st) index d"
    and "iterate lib cfg internal h st index d = Inr (h', st')"
  shows "in_bounds cfg h' (cur st')"
proof -
  obtain new where c: "candidate lib cfg internal h (cur st) index d = Inr (h', new)"
    and st': "st' = (if score new \<le> score st then new else st)"
    using assms(7) by (auto simp: iterate_def split: sum.splits if_splits)
  obtain r' where ch: "changes cfg h (cur st) index d = Inr (h', r')" and r': "cur new = r'"
    using c by (auto simp: candidate_def Let_def split: sum.splits)
  have v: "valid_refs h (cur st)" using assms(1) by (simp add: in_bounds_def)
  have new: "in_bounds cfg h' (cur new)"
    using changes_in_bounds[OF assms(1-6) ch] by (simp add: r')
  have old: "in_bounds cfg h' (cur st)"
    using in_bounds_kept[OF assms(1) changes_cow[OF v ch]] .
  show ?thesis using new old by (simp add: st')
qed

lemma initialize_in_bounds:
  assumes "0 \<le> n" and "0 \<le> mx" and "mn \<le> mx" and "1 \<le> w" and "1 \<le> hg"
    and "valid_init_draws n mx w hg xs ys cs"
    and "initialize n mn mx w hg h xs ys cs = Inr (h', r')"
  shows "in_bounds \<lparr>n_shapes = n, min_points = mn, max_points = mx, width = w, height = hg\<rparr> h' r'"
proof -
  define m where "m = nat mx"
  define L where "L = nat (mx * 2)"
  define empty where "empty = replicate (nat n) (replicate L (0::int))"
  define shapes1 where "shapes1 = map2 (\<lambda>row x. set_slice2 0 (length row) row x) empty xs"
  define shapes2 where "shapes2 = map2 (\<lambda>row y. set_slice2 1 (length row) row y) shapes1 ys"
  have L: "L = 2 * m" using assms(2) by (simp add: L_def m_def nat_mult_distrib)
  have lx: "length xs = nat n" and ly: "length ys = nat n" and lc: "length cs = nat n"
    and rx: "\<And>i. i < nat n \<Longrightarrow> length (xs ! i) = m \<and> (\<forall>j<m. 0 \<le> xs ! i ! j \<and> xs ! i ! j < w)"
    and ry: "\<And>i. i < nat n \<Longrightarrow> length (ys ! i) = m \<and> (\<forall>j<m. 0 \<le> ys ! i ! j \<and> ys ! i ! j < hg)"
    and rc: "\<And>i. i < nat n \<Longrightarrow> length (cs ! i) = 4"
    using assms(6) by (simp_all add: valid_init_draws_def list_all_length m_def)
  have res: "h' = h\<lparr>int2d := int2d h @ [shapes2], int1d := int1d h @ [replicate (nat n) mn],
                    u8_2d := u8_2d h @ [cs]\<rparr>"
      "r' = \<lparr>shapes = length (int2d h), points = length (int1d h), colors = length (u8_2d h)\<rparr>"
    using assms(1,2,4,5,7)
    by (auto simp: initialize_def Let_def shapes2_def shapes1_def empty_def L_def
        split: if_splits)
  have l2: "length shapes2 = nat n"
    by (simp add: shapes2_def shapes1_def empty_def lx ly)
  have row: "\<And>i. i < nat n \<Longrightarrow> shapes2 ! i =
      set_slice2 (Suc 0) (2 * m) (set_slice2 0 (2 * m) (replicate (2 * m) 0) (xs ! i)) (ys ! i)"
    by (simp add: shapes2_def shapes1_def empty_def lx ly L)
  have rows: "\<And>i j. i < nat n \<Longrightarrow> length (shapes2 ! i) = 2 * m \<and>
      (j < m \<longrightarrow> 0 \<le> fst (pair_at (shapes2 ! i) j) \<and> fst (pair_at (shapes2 ! i) j) \<le> w \<and>
         0 \<le> snd (pair_at (shapes2 ! i) j) \<and> snd (pair_at (shapes2 ! i) j) \<le> hg)"
  proof -
    fix i j assume i: "i < nat n"
    have lxi: "length (xs ! i) = m" and lyi: "length (ys ! i) = m"
      using rx[OF i] ry[OF i] by simp_all
    note il = interleaved_row[OF lxi lyi]
    have "j < m \<longrightarrow> xs ! i ! j \<le> w \<and> ys ! i ! j \<le> hg \<and> 0 \<le> xs ! i ! j \<and> 0 \<le> ys ! i ! j"
      using rx[OF i] ry[OF i] by (simp add: less_imp_le)
    then show "length (shapes2 ! i) = 2 * m \<and>
      (j < m \<longrightarrow> 0 \<le> fst (pair_at (shapes2 ! i) j) \<and> fst (pair_at (shapes2 ! i) j) \<le> w \<and>
         0 \<le> snd (pair_at (shapes2 ! i) j) \<and> snd (pair_at (shapes2 ! i) j) \<le> hg)"
      using il by (simp add: row[OF i])
  qed
  show ?thesis
    using assms(1,3) l2 lc rows rc byte_range
    by (simp add: in_bounds_def res heap_defs list_all_length pair_in_canvas_def m_def)
qed

end
